theory Spec2Isabelle
  imports Complex_Main
begin

section \<open>The motion and timing engine of app.js\<close>

text \<open>
  The model follows the third (most recent) copy of the page script in \<^verbatim>\<open>src/app.js\<close>
  (lines 1798 to 4372) and \<^verbatim>\<open>src/reverb-worker.js\<close>.  In the motion and
  timing engine JavaScript numbers are modelled as real numbers: rounding, NaN and the
  infinities are not part of the model, so every arithmetic statement about it is about
  the exact value of the expression the code writes.  The sample count of the reverb
  impulse is modelled with the rounding of double-precision arithmetic, see there.
  A variable that can hold \<^verbatim>\<open>null\<close> is an option.
\<close>

subsection \<open>Settings and module-level state (app.js 2227-2228, 2718-2734)\<close>

record settings =
  cyclesPerMinute :: real
  motionType :: string

record motion =
  ballPosition :: real
  isPlaying :: bool
  speedMultiplier :: real
  lastTimestamp :: "real option"
  virtualTime :: real
  rampStartTime :: "real option"
  rampDirection :: "string option"
  rampStartSpeed :: real
  isDecelerating :: bool
  decelStartPosition :: real
  waitingForEdge :: bool

definition RAMP_DURATION :: real where
  "RAMP_DURATION = 800"

text \<open>The values of the \<^verbatim>\<open>let\<close> declarations at lines 2718-2734.\<close>

definition initialMotion :: motion where
  "initialMotion =
     \<lparr>ballPosition = 0, isPlaying = False, speedMultiplier = 0, lastTimestamp = None,
      virtualTime = 0, rampStartTime = None, rampDirection = None, rampStartSpeed = 0,
      isDecelerating = False, decelStartPosition = 0, waitingForEdge = False\<rparr>"

subsection \<open>Arithmetic helpers\<close>

text \<open>
  JavaScript's \<^verbatim>\<open>%\<close> on numbers: the remainder of the division truncated toward zero,
  so the result has the sign of the dividend.  (A zero divisor gives NaN in JavaScript and
  is outside the model.)
\<close>

definition jsRem :: "real \<Rightarrow> real \<Rightarrow> real" where
  "jsRem x y = x - y * of_int (if 0 \<le> x / y then \<lfloor>x / y\<rfloor> else \<lceil>x / y\<rceil>)"

text \<open>A \<^verbatim>\<open>null\<close> operand of a subtraction is converted to 0.\<close>

definition numOrZero :: "real option \<Rightarrow> real" where
  "numOrZero v = (case v of None \<Rightarrow> 0 | Some x \<Rightarrow> x)"

text \<open>\<^verbatim>\<open>easeInOutCubic\<close>, app.js 3088-3090.\<close>

definition easeInOutCubic :: "real \<Rightarrow> real" where
  "easeInOutCubic t = (if t < 0.5 then 4 * t * t * t else 1 - (- 2 * t + 2) ^ 3 / 2)"

subsection \<open>The waveform (app.js 3179-3195)\<close>

definition period :: "settings \<Rightarrow> real" where
  "period cfg = (let cyclesPerSecond = cyclesPerMinute cfg / 60 in 1000 / cyclesPerSecond)"

text \<open>
  The block that derives the position from the virtual time.  The source inlines it at the
  end of \<^verbatim>\<open>calculateBallPosition\<close> (and again in \<^verbatim>\<open>updateAudio\<close>, lines 3021-3035);
  every motion type other than the string \<^verbatim>\<open>'sine'\<close> takes the triangle branch.
\<close>

definition wavePosition :: "settings \<Rightarrow> real \<Rightarrow> real" where
  "wavePosition cfg vt =
     (if motionType cfg = ''sine'' then
        (let phase = (vt / period cfg) * pi * 2 in sin phase)
      else
        (let cycleProgress = jsRem (jsRem vt (period cfg) + period cfg) (period cfg) / period cfg
         in if cycleProgress < 0.25 then cycleProgress * 4
            else if cycleProgress < 0.75 then 1 - ((cycleProgress - 0.25) * 4)
            else - 1 + ((cycleProgress - 0.75) * 4)))"

text \<open>\<^verbatim>\<open>getVelocityDirection\<close> and \<^verbatim>\<open>isHeadingTowardZero\<close>, app.js 3093-3115.\<close>

definition getVelocityDirection :: "settings \<Rightarrow> motion \<Rightarrow> real" where
  "getVelocityDirection cfg m =
     (if motionType cfg = ''sine'' then
        (let phase = (virtualTime m / period cfg) * pi * 2 in cos phase)
      else
        (let cycleProgress =
               jsRem (jsRem (virtualTime m) (period cfg) + period cfg) (period cfg) / period cfg
         in if cycleProgress < 0.25 \<or> cycleProgress \<ge> 0.75 then 1 else - 1))"

definition isHeadingTowardZero :: "settings \<Rightarrow> motion \<Rightarrow> bool" where
  "isHeadingTowardZero cfg m =
     (let vel = getVelocityDirection cfg m
      in (ballPosition m > 0 \<and> vel < 0) \<or> (ballPosition m < 0 \<and> vel > 0))"

subsection \<open>One frame of the envelope: \<^verbatim>\<open>calculateBallPosition\<close> (app.js 3118-3208)\<close>

text \<open>
  The four branches of the \<^verbatim>\<open>if\<close> chain at lines 3129-3177, each as a function of the
  capped delta time.  The wait-for-edge branch evaluates the sine of the phase whatever
  the motion type is (line 3136).
\<close>

definition waitingForEdgeStep :: "settings \<Rightarrow> real \<Rightarrow> motion \<Rightarrow> motion" where
  "waitingForEdgeStep cfg deltaTime m =
     (let m1 = m\<lparr>virtualTime := virtualTime m + deltaTime * speedMultiplier m\<rparr>;
          phase = (virtualTime m1 / period cfg) * pi * 2;
          newPos = sin phase
      in if \<bar>newPos\<bar> \<ge> 0.99
         then m1\<lparr>waitingForEdge := False, isDecelerating := True, decelStartPosition := newPos\<rparr>
         else m1)"

definition deceleratingStep :: "real \<Rightarrow> motion \<Rightarrow> motion" where
  "deceleratingStep deltaTime m =
     (let distanceFromZero = \<bar>ballPosition m\<bar>;
          startDistance = \<bar>decelStartPosition m\<bar>;
          m1 = (if startDistance > 0.01
                then (let ratio = distanceFromZero / startDistance
                      in m\<lparr>speedMultiplier := max 0.08 (sqrt ratio)\<rparr>)
                else m\<lparr>speedMultiplier := 0\<rparr>)
      in m1\<lparr>virtualTime := virtualTime m1 + deltaTime * speedMultiplier m1\<rparr>)"

definition rampUpStep :: "real \<Rightarrow> real \<Rightarrow> motion \<Rightarrow> motion" where
  "rampUpStep timestamp deltaTime m =
     (let rampElapsed = timestamp - numOrZero (rampStartTime m);
          rampProgress = min (rampElapsed / RAMP_DURATION) 1;
          easedProgress = easeInOutCubic rampProgress;
          m1 = m\<lparr>speedMultiplier := rampStartSpeed m + (1 - rampStartSpeed m) * easedProgress\<rparr>;
          m2 = (if rampProgress \<ge> 1 then m1\<lparr>rampDirection := None\<rparr> else m1)
      in m2\<lparr>virtualTime := virtualTime m2 + deltaTime * speedMultiplier m2\<rparr>)"

definition normalPlaybackStep :: "real \<Rightarrow> motion \<Rightarrow> motion" where
  "normalPlaybackStep deltaTime m =
     m\<lparr>virtualTime := virtualTime m + deltaTime * speedMultiplier m\<rparr>"

text \<open>The test of line 3199 on the positions before and after the frame.\<close>

definition crossedZero :: "real \<Rightarrow> real \<Rightarrow> bool" where
  "crossedZero prevPosition newPosition \<longleftrightarrow>
     (prevPosition > 0 \<and> newPosition \<le> 0) \<or> (prevPosition < 0 \<and> newPosition \<ge> 0)"

text \<open>
  The end of the frame, lines 3179-3208: the position is derived from the new virtual
  time, and a zero crossing while decelerating clears the whole animation state.
\<close>

definition finishFrame :: "settings \<Rightarrow> real \<Rightarrow> motion \<Rightarrow> motion" where
  "finishFrame cfg prevPosition m2 =
     (let m3 = m2\<lparr>ballPosition := wavePosition cfg (virtualTime m2)\<rparr>
      in if isDecelerating m3 \<and> crossedZero prevPosition (ballPosition m3)
         then m3\<lparr>isDecelerating := False, waitingForEdge := False, rampDirection := None,
                 virtualTime := 0, speedMultiplier := 0, ballPosition := 0\<rparr>
         else m3)"

definition calculateBallPosition :: "settings \<Rightarrow> real \<Rightarrow> motion \<Rightarrow> motion" where
  "calculateBallPosition cfg timestamp m =
     (let m0 = (if lastTimestamp m = None then m\<lparr>lastTimestamp := Some timestamp\<rparr> else m);
          deltaTime = min (timestamp - numOrZero (lastTimestamp m0)) 50;
          m1 = m0\<lparr>lastTimestamp := Some timestamp\<rparr>;
          prevPosition = ballPosition m1;
          m2 = (if waitingForEdge m1 then waitingForEdgeStep cfg deltaTime m1
                else if isDecelerating m1 then deceleratingStep deltaTime m1
                else if rampDirection m1 = Some ''up'' then rampUpStep timestamp deltaTime m1
                else normalPlaybackStep deltaTime m1)
      in finishFrame cfg prevPosition m2)"

subsection \<open>Play and pause, frames, and the interval ticker\<close>

text \<open>
  \<^verbatim>\<open>togglePlayPause\<close>, app.js 3333-3397, as far as it writes the motion variables:
  \<open>now\<close> is the value of \<^verbatim>\<open>performance.now()\<close> at line 3370.  The button label, the
  start overlay and the audio and music calls (lines 3335-3366 and 3374-3382) write none
  of the fields of \<^typ>\<open>motion\<close> and are left out.
\<close>

definition togglePlayPause :: "settings \<Rightarrow> real \<Rightarrow> motion \<Rightarrow> motion" where
  "togglePlayPause cfg now m =
     (let m1 = m\<lparr>isPlaying := \<not> isPlaying m\<rparr>
      in if isPlaying m1
         then m1\<lparr>isDecelerating := False, waitingForEdge := False,
                 rampDirection := Some ''up'', rampStartTime := Some now,
                 rampStartSpeed := speedMultiplier m1\<rparr>
         else (let headingToZero = isHeadingTowardZero cfg m1
               in if headingToZero
                  then m1\<lparr>isDecelerating := True, decelStartPosition := ballPosition m1\<rparr>
                  else m1\<lparr>waitingForEdge := True, rampDirection := None,
                          speedMultiplier := 1\<rparr>))"

text \<open>\<^verbatim>\<open>animate\<close>, app.js 3400-3409, without the drawing calls.\<close>

definition animate :: "settings \<Rightarrow> real \<Rightarrow> motion \<Rightarrow> motion" where
  "animate cfg timestamp m =
     (if isPlaying m \<or> rampDirection m \<noteq> None \<or> isDecelerating m \<or> waitingForEdge m
         \<or> speedMultiplier m > 0
      then calculateBallPosition cfg timestamp m
      else m)"

text \<open>
  The callback of \<^verbatim>\<open>startAudioLoop\<close>, app.js 3066-3077.  \<open>hidden\<close> is
  \<^verbatim>\<open>document.hidden\<close>; \<^verbatim>\<open>lastAudioTime\<close> is a number once the loop has been started
  (line 3065).  \<^verbatim>\<open>updateAudio\<close> only schedules audio parameters.
\<close>

definition audioLoopTick :: "bool \<Rightarrow> real \<Rightarrow> real \<times> motion \<Rightarrow> real \<times> motion" where
  "audioLoopTick hidden now st =
     (case st of (lastAudioTime, m) \<Rightarrow>
        (let dt = min (now - lastAudioTime) 100
         in (now, if hidden \<and> isPlaying m \<and> speedMultiplier m > 0
                  then m\<lparr>virtualTime := virtualTime m + dt * speedMultiplier m\<rparr>
                  else m)))"

text \<open>
  The events that drive the motion state: a press of the play/pause button at a clock
  value, and an animation frame with its timestamp.
\<close>

datatype event = Press real | Frame real

fun applyEvent :: "settings \<Rightarrow> motion \<Rightarrow> event \<Rightarrow> motion" where
  "applyEvent cfg m (Press now) = togglePlayPause cfg now m"
| "applyEvent cfg m (Frame timestamp) = animate cfg timestamp m"

definition runEvents :: "settings \<Rightarrow> event list \<Rightarrow> motion \<Rightarrow> motion" where
  "runEvents cfg es m = foldl (applyEvent cfg) m es"

text \<open>Frames at a fixed distance \<open>dt\<close> after the previous frame's timestamp.\<close>

definition fixedDeltaTick :: "settings \<Rightarrow> real \<Rightarrow> motion \<Rightarrow> motion" where
  "fixedDeltaTick cfg dt m = calculateBallPosition cfg (numOrZero (lastTimestamp m) + dt) m"

fun repeatTick :: "settings \<Rightarrow> real \<Rightarrow> nat \<Rightarrow> motion \<Rightarrow> motion" where
  "repeatTick cfg dt 0 m = m"
| "repeatTick cfg dt (Suc n) m = repeatTick cfg dt n (fixedDeltaTick cfg dt m)"

text \<open>Frames at a given list of timestamps, and the states they pass through.\<close>

fun frameTrace :: "settings \<Rightarrow> real list \<Rightarrow> motion \<Rightarrow> motion list" where
  "frameTrace cfg [] m = []"
| "frameTrace cfg (t # ts) m =
     calculateBallPosition cfg t m # frameTrace cfg ts (calculateBallPosition cfg t m)"

text \<open>
  The source keeps the phase of the envelope in three flags.  The names of the
  specification's state machine are read off them in the order in which
  \<^verbatim>\<open>calculateBallPosition\<close> tests them; with no flag set the envelope is steady when
  it moves and idle when it stands still.
\<close>

datatype phase = Idle | RampingUp | Steady | WaitingForEdge | Decelerating

definition phaseState :: "motion \<Rightarrow> phase" where
  "phaseState m =
     (if waitingForEdge m then WaitingForEdge
      else if isDecelerating m then Decelerating
      else if rampDirection m = Some ''up'' then RampingUp
      else if speedMultiplier m = 0 then Idle
      else Steady)"

subsection \<open>Music rate and offset (app.js 2745-2752, 2914-2927, 3210-3212)\<close>

text \<open>
  \<open>musicBuffer\<close> holds the duration of the decoded buffer and \<open>musicSource\<close> the
  \<^verbatim>\<open>playbackRate.value\<close> of the source node; both are \<open>None\<close> for \<^verbatim>\<open>null\<close>.
  \<open>currentTime\<close> is \<^verbatim>\<open>audioContext.currentTime\<close>; a \<^verbatim>\<open>lastMusicUpdateTime\<close> of 0 is
  falsy.
\<close>

record music =
  musicBuffer :: "real option"
  musicSource :: "real option"
  musicPausedAt :: real
  musicIsPlaying :: bool
  lastMusicUpdateTime :: real

definition updateMusicPlaybackRate :: "real \<Rightarrow> real \<Rightarrow> music \<Rightarrow> music" where
  "updateMusicPlaybackRate currentTime rate mu =
     (case (musicSource mu, musicBuffer mu) of
        (Some playbackRate, Some duration) \<Rightarrow>
          if musicIsPlaying mu then
            (let now = currentTime;
                 deltaTime = (if lastMusicUpdateTime mu \<noteq> 0 then now - lastMusicUpdateTime mu else 0)
             in mu\<lparr>lastMusicUpdateTime := now,
                    musicPausedAt := jsRem (musicPausedAt mu + deltaTime * playbackRate) duration,
                    musicSource := Some rate\<rparr>)
          else mu
      | _ \<Rightarrow> mu)"

text \<open>
  The other writers of the music variables, as far as these fields go:
  \<^verbatim>\<open>startMusicPlayback\<close> (app.js 2863-2895; \<open>hasContext\<close> says that the audio context
  exists, \<open>speed\<close> is the speed multiplier given to a new source node),
  \<^verbatim>\<open>stopMusicPlayback\<close> (lines 2898-2911), the teardown at a change of track (lines
  3776-3792 and 4262-4277) and the arrival of a decoded buffer (lines 3806 and 4290).
\<close>

definition startMusicPlayback :: "bool \<Rightarrow> real \<Rightarrow> music \<Rightarrow> music" where
  "startMusicPlayback hasContext speed mu =
     (if musicBuffer mu = None \<or> \<not> hasContext \<or> musicIsPlaying mu then mu
      else (let mu1 = (if musicSource mu = None then mu\<lparr>musicSource := Some speed\<rparr> else mu)
            in mu1\<lparr>musicIsPlaying := True\<rparr>))"

definition stopMusicPlayback :: "music \<Rightarrow> music" where
  "stopMusicPlayback mu = mu\<lparr>musicIsPlaying := False\<rparr>"

definition unloadMusicTrack :: "music \<Rightarrow> music" where
  "unloadMusicTrack mu =
     (stopMusicPlayback mu)\<lparr>musicSource := None, musicBuffer := None, musicPausedAt := 0\<rparr>"

definition musicBufferDecoded :: "real \<Rightarrow> music \<Rightarrow> music" where
  "musicBufferDecoded duration mu = mu\<lparr>musicBuffer := Some duration\<rparr>"

text \<open>The whole of \<^verbatim>\<open>calculateBallPosition\<close>, with the call of line 3211.\<close>

definition calculateBallPositionAndSync ::
  "settings \<Rightarrow> real \<Rightarrow> real \<Rightarrow> motion \<times> music \<Rightarrow> motion \<times> music" where
  "calculateBallPositionAndSync cfg timestamp currentTime st =
     (case st of (m, mu) \<Rightarrow>
        (let m' = calculateBallPosition cfg timestamp m
         in (m', updateMusicPlaybackRate currentTime (speedMultiplier m') mu)))"

section \<open>The reverb impulse (reverb-worker.js, app.js 2761-2847)\<close>

subsection \<open>Double-precision numbers\<close>

text \<open>
  The numbers of JavaScript are IEEE 754 binary64 values.  The sample count of the impulse
  is an integer, the floor of a product of such values, and it depends on how the
  products are rounded.  The arithmetic that decides the count is therefore modelled with
  its rounding: a decimal literal and the result of a multiplication are the exact value
  rounded to the nearest number with a significand of 53 bits, a tie going to the even
  significand.  \<open>exponentOf x\<close> is the binary exponent of \<open>x\<close>, and
  \<open>pow2 (exponentOf x - 52)\<close> is the distance between neighbouring binary64 numbers of
  that exponent.  The limits of the exponent (overflow to infinity, subnormal numbers)
  are not modelled, and the sample rate and the decay are finite numbers.
  \<^verbatim>\<open>Math.min\<close> and \<^verbatim>\<open>Math.floor\<close> are exact.  The values of the samples are computed
  over the reals.
\<close>

definition pow2 :: "int \<Rightarrow> real" where
  "pow2 e = (if 0 \<le> e then 2 ^ nat e else 1 / 2 ^ nat (- e))"

definition exponentOf :: "real \<Rightarrow> int" where
  "exponentOf x = \<lfloor>log 2 \<bar>x\<bar>\<rfloor>"

definition roundTiesToEven :: "real \<Rightarrow> int" where
  "roundTiesToEven r =
     (let f = \<lfloor>r\<rfloor>
      in if r - of_int f < 1 / 2 then f
         else if 1 / 2 < r - of_int f then f + 1
         else if even f then f else f + 1)"

definition binary64 :: "real \<Rightarrow> real" where
  "binary64 x =
     (if x = 0 then 0
      else (let ulp = pow2 (exponentOf x - 52)
            in of_int (roundTiesToEven (x / ulp)) * ulp))"

subsection \<open>The worker\<close>

text \<open>
  Exceptions of the platform that the code can meet are values: a typed array of negative
  length is a \<open>RangeError\<close>, an audio buffer of fewer than one sample frame a
  \<open>NotSupportedError\<close>, a missing channel array a \<open>TypeError\<close>.  The other argument
  checks of the audio API (the upper limits and the range of the sample rate) are not
  modelled.  \<^verbatim>\<open>Math.random()\<close> is a parameter: \<open>rnd k\<close> is the value of the call
  number \<open>k\<close>, and the number of calls made so far is threaded through the loops.
\<close>

datatype jsError = RangeError | NotSupportedError | TypeError

text \<open>
  \<^verbatim>\<open>PRESETS\<close>, reverb-worker.js 4-9, and the lookup of line 12,
  \<^verbatim>\<open>PRESETS[type] || PRESETS.room\<close>.  The table is an object literal, so the lookup also
  finds the properties that every object inherits from \<^verbatim>\<open>Object.prototype\<close>: for these
  names the value is a function (for \<^verbatim>\<open>__proto__\<close> the prototype object itself), which
  is truthy and has none of the fields of a preset.  For every other name that is not in
  the table the lookup gives \<^verbatim>\<open>undefined\<close> and the room preset is taken.
\<close>

record preset =
  durationMult :: real
  earlyDelay :: real
  diffusion :: real
  damping :: real

definition PRESETS :: "(string \<times> preset) list" where
  "PRESETS =
     [(''room'',
         \<lparr>durationMult = binary64 0.7, earlyDelay = 0.01, diffusion = 0.7, damping = 0.3\<rparr>),
      (''hall'',
         \<lparr>durationMult = binary64 1.2, earlyDelay = 0.03, diffusion = 0.85, damping = 0.15\<rparr>),
      (''plate'',
         \<lparr>durationMult = binary64 0.9, earlyDelay = 0.005, diffusion = 0.95, damping = 0.1\<rparr>),
      (''cathedral'',
         \<lparr>durationMult = binary64 1.5, earlyDelay = 0.05, diffusion = 0.9, damping = 0.08\<rparr>)]"

definition objectPrototypeKeys :: "string list" where
  "objectPrototypeKeys =
     [''constructor'', ''__defineGetter__'', ''__defineSetter__'', ''hasOwnProperty'',
      ''__lookupGetter__'', ''__lookupSetter__'', ''isPrototypeOf'',
      ''propertyIsEnumerable'', ''toString'', ''valueOf'', ''__proto__'',
      ''toLocaleString'']"

datatype presetValue = Preset preset | InheritedValue

definition presetFor :: "string \<Rightarrow> presetValue" where
  "presetFor type =
     (case map_of PRESETS type of
        Some p \<Rightarrow> Preset p
      | None \<Rightarrow>
          if type \<in> set objectPrototypeKeys then InheritedValue
          else Preset \<lparr>durationMult = binary64 0.7, earlyDelay = 0.01, diffusion = 0.7,
                        damping = 0.3\<rparr>)"

text \<open>
  A \<^verbatim>\<open>for (let i = 0; i < length; i++)\<close> loop over a state, here the channel array and the
  number of random values drawn.
\<close>

function forSamples ::
  "(nat \<Rightarrow> real list \<times> nat \<Rightarrow> real list \<times> nat) \<Rightarrow> nat \<Rightarrow> nat
     \<Rightarrow> real list \<times> nat \<Rightarrow> real list \<times> nat" where
  "forSamples body i n st = (if i < n then forSamples body (Suc i) n (body i st) else st)"
  by pat_completeness auto
termination
  by (relation "measure (\<lambda>(body, i, n, st). n - i)") auto

declare forSamples.simps [simp del]

text \<open>The body of the inner loop of \<^verbatim>\<open>generateImpulse\<close>, reverb-worker.js 28-53.\<close>

definition workerSample ::
  "(nat \<Rightarrow> real) \<Rightarrow> preset \<Rightarrow> real \<Rightarrow> real \<Rightarrow> nat \<Rightarrow> real \<Rightarrow> nat
     \<Rightarrow> real list \<times> nat \<Rightarrow> real list \<times> nat" where
  "workerSample rnd p sampleRate decay n stereoOffset i st =
     (case st of (data, k) \<Rightarrow>
        (let earlyThreshold = earlyDelay p * 3;
             diffusionMult = diffusion p * 0.3;
             oneMinusDiffusion = 1 - diffusionMult;
             invDecayHalf = 1 / (decay * 0.5);
             invLength = 1 / real n;
             t = real i / sampleRate;
             progress = real i * invLength;
             envelope = exp (- t * invDecayHalf);
             dampingFactor = 1 - (progress * damping p);
             sample0 = rnd k * 2 - 1;
             early = (t < earlyThreshold);
             sample1 = (if early
                        then sample0 + (rnd (k + 1) * 2 - 1) * (exp (- t / earlyDelay p) * 0.5)
                        else sample0);
             sample2 = (if diffusion p > 0.5 \<and> i > 0
                        then sample1 * oneMinusDiffusion + data ! (i - 1) * diffusionMult
                        else sample1)
         in (data[i := sample2 * envelope * dampingFactor * stereoOffset],
             if early then k + 2 else k + 1)))"

text \<open>
  The value \<^verbatim>\<open>generateImpulse\<close> returns, and the function, reverb-worker.js 11-57.  The
  returned object is \<^verbatim>\<open>{ channels, length, sampleRate }\<close>.  Its length is an integer
  (\<open>Impulse\<close>), except when the lookup found an inherited value: then
  \<^verbatim>\<open>preset.durationMult\<close> is \<^verbatim>\<open>undefined\<close>, the duration and the length are \<^verbatim>\<open>NaN\<close>, the
  two typed arrays are empty (their constructor converts \<^verbatim>\<open>NaN\<close> to 0), the test
  \<^verbatim>\<open>i < length\<close> fails at once, and the object carries \<^verbatim>\<open>NaN\<close> as its length
  (\<open>ImpulseNaN\<close>, with the channels and the sample rate).
\<close>

record impulseData =
  channels :: "real list list"
  length' :: int
  sampleRate :: real

datatype impulseResult = Impulse impulseData | ImpulseNaN "real list list" real

definition generateImpulse ::
  "(nat \<Rightarrow> real) \<Rightarrow> real \<Rightarrow> string \<Rightarrow> real \<Rightarrow> jsError + impulseResult" where
  "generateImpulse rnd sampleRate' type decay =
     (case presetFor type of
        InheritedValue \<Rightarrow> Inr (ImpulseNaN [[], []] sampleRate')
      | Preset p \<Rightarrow>
          (let duration = min (binary64 (durationMult p * decay)) 6;
               len = \<lfloor>binary64 (sampleRate' * duration)\<rfloor>
           in if len < 0 then Inl RangeError
              else
                (let n = nat len;
                     r0 = forSamples (workerSample rnd p sampleRate' decay n 1) 0 n
                            (replicate n 0, 0);
                     r1 = forSamples (workerSample rnd p sampleRate' decay n 0.97) 0 n
                            (replicate n 0, snd r0)
                 in Inr (Impulse \<lparr>channels = [fst r0, fst r1], length' = len,
                                   sampleRate = sampleRate'\<rparr>))))"

text \<open>
  The messages of the worker protocol and the worker's \<^verbatim>\<open>onmessage\<close>,
  reverb-worker.js 59-74.  The posted message carries the fields of the result and the id
  of the request; \<open>ResponseNaN\<close> is the message whose length is \<^verbatim>\<open>NaN\<close>.
\<close>

record impulseRequest =
  requestId :: nat
  requestSampleRate :: real
  requestType :: string
  requestDecay :: real

record impulseResponse = impulseData +
  id' :: nat

datatype workerMessage = Response impulseResponse | ResponseNaN nat "real list list" real

definition workerOnMessage :: "(nat \<Rightarrow> real) \<Rightarrow> impulseRequest \<Rightarrow> jsError + workerMessage" where
  "workerOnMessage rnd req =
     (case generateImpulse rnd (requestSampleRate req) (requestType req) (requestDecay req) of
        Inl e \<Rightarrow> Inl e
      | Inr (Impulse result) \<Rightarrow>
          Inr (Response \<lparr>channels = channels result, length' = length' result,
                          sampleRate = sampleRate result, id' = requestId req\<rparr>)
      | Inr (ImpulseNaN chs rate) \<Rightarrow> Inr (ResponseNaN (requestId req) chs rate))"

subsection \<open>The main thread\<close>

text \<open>
  An \<^verbatim>\<open>AudioBuffer\<close> with \<^verbatim>\<open>createBuffer\<close> and \<^verbatim>\<open>copyToChannel\<close>: the copy overwrites
  the front of the channel with as much of the source as fits.
\<close>

record audioBuffer =
  numberOfChannels :: nat
  bufferLength :: int
  bufferSampleRate :: real
  channelData :: "real list list"

definition createBuffer :: "nat \<Rightarrow> int \<Rightarrow> real \<Rightarrow> jsError + audioBuffer" where
  "createBuffer n len rate =
     (if n < 1 \<or> len < 1 then Inl NotSupportedError
      else Inr \<lparr>numberOfChannels = n, bufferLength = len, bufferSampleRate = rate,
                channelData = replicate n (replicate (nat len) 0)\<rparr>)"

definition copyToChannel :: "real list \<Rightarrow> nat \<Rightarrow> audioBuffer \<Rightarrow> audioBuffer" where
  "copyToChannel source channelNumber b =
     b\<lparr>channelData := (channelData b)
         [channelNumber := take (nat (bufferLength b)) source
                           @ drop (length source) (channelData b ! channelNumber)]\<rparr>"

text \<open>
  The body of the inner loop of \<^verbatim>\<open>createReverbImpulseFallback\<close>, app.js 2811-2826, its
  preset table with the durations already multiplied by the decay (lines 2795-2802), the
  lookup of line 2804, which finds inherited properties as the worker's does, and the
  function (lines 2793-2829).  For an inherited value \<^verbatim>\<open>preset.duration\<close> is
  \<^verbatim>\<open>undefined\<close> and the length is \<^verbatim>\<open>NaN\<close>, which the argument conversion of
  \<^verbatim>\<open>createBuffer\<close> turns into 0.
\<close>

record fallbackPreset =
  fbDuration :: real
  fbEarlyDelay :: real
  fbDiffusion :: real
  fbDamping :: real

definition fallbackPresets :: "real \<Rightarrow> (string \<times> fallbackPreset) list" where
  "fallbackPresets decay =
     [(''room'', \<lparr>fbDuration = binary64 (decay * binary64 0.7), fbEarlyDelay = 0.01,
                  fbDiffusion = 0.7, fbDamping = 0.3\<rparr>),
      (''hall'', \<lparr>fbDuration = binary64 (decay * binary64 1.2), fbEarlyDelay = 0.03,
                  fbDiffusion = 0.85, fbDamping = 0.15\<rparr>),
      (''plate'', \<lparr>fbDuration = binary64 (decay * binary64 0.9), fbEarlyDelay = 0.005,
                   fbDiffusion = 0.95, fbDamping = 0.1\<rparr>),
      (''cathedral'', \<lparr>fbDuration = binary64 (decay * binary64 1.5), fbEarlyDelay = 0.05,
                       fbDiffusion = 0.9, fbDamping = 0.08\<rparr>)]"

datatype fallbackPresetValue = FallbackPreset fallbackPreset | FallbackInheritedValue

definition fallbackPresetFor :: "real \<Rightarrow> string \<Rightarrow> fallbackPresetValue" where
  "fallbackPresetFor decay type =
     (case map_of (fallbackPresets decay) type of
        Some p \<Rightarrow> FallbackPreset p
      | None \<Rightarrow>
          if type \<in> set objectPrototypeKeys then FallbackInheritedValue
          else FallbackPreset \<lparr>fbDuration = binary64 (decay * binary64 0.7),
                                fbEarlyDelay = 0.01, fbDiffusion = 0.7, fbDamping = 0.3\<rparr>)"

definition fallbackSample ::
  "(nat \<Rightarrow> real) \<Rightarrow> fallbackPreset \<Rightarrow> real \<Rightarrow> real \<Rightarrow> int \<Rightarrow> real \<Rightarrow> nat
     \<Rightarrow> real list \<times> nat \<Rightarrow> real list \<times> nat" where
  "fallbackSample rnd p sampleRate' decay len stereoOffset i st =
     (case st of (channelData', k) \<Rightarrow>
        (let t = real i / sampleRate';
             progress = real i / real_of_int len;
             envelope = exp (- t / (decay * 0.5));
             dampingFactor = 1 - (progress * fbDamping p);
             sample0 = rnd k * 2 - 1;
             early = (t < fbEarlyDelay p * 3);
             sample1 = (if early
                        then sample0 + (rnd (k + 1) * 2 - 1) * exp (- t / fbEarlyDelay p) * 0.5
                        else sample0);
             sample2 = (if fbDiffusion p > 0.5 \<and> i > 0
                        then sample1 * (1 - fbDiffusion p * 0.3)
                             + channelData' ! (i - 1) * fbDiffusion p * 0.3
                        else sample1)
         in (channelData'[i := sample2 * envelope * dampingFactor * stereoOffset],
             if early then k + 2 else k + 1)))"

definition createReverbImpulseFallback ::
  "(nat \<Rightarrow> real) \<Rightarrow> real \<Rightarrow> string \<Rightarrow> real \<Rightarrow> jsError + audioBuffer" where
  "createReverbImpulseFallback rnd sampleRate' type decay =
     (case fallbackPresetFor decay type of
        FallbackInheritedValue \<Rightarrow>
          (case createBuffer 2 0 sampleRate' of
             Inl e \<Rightarrow> Inl e
           | Inr impulse \<Rightarrow> Inr impulse)
      | FallbackPreset p \<Rightarrow>
          (let duration = min (fbDuration p) 6;
               len = \<lfloor>binary64 (sampleRate' * duration)\<rfloor>
           in case createBuffer 2 len sampleRate' of
                Inl e \<Rightarrow> Inl e
              | Inr impulse \<Rightarrow>
                  (let n = nat len;
                       r0 = forSamples (fallbackSample rnd p sampleRate' decay len 1) 0 n
                              (channelData impulse ! 0, 0);
                       impulse0 = impulse\<lparr>channelData := (channelData impulse)[0 := fst r0]\<rparr>;
                       r1 = forSamples (fallbackSample rnd p sampleRate' decay len 0.97) 0 n
                              (channelData impulse0 ! 1, snd r0)
                   in Inr (impulse0\<lparr>channelData := (channelData impulse0)[1 := fst r1]\<rparr>))))"

text \<open>
  The audio side of the page as far as the reverb needs it: the audio context (its sample
  rate, or \<open>None\<close> for \<^verbatim>\<open>null\<close>), the convolver node (\<open>None\<close> for \<^verbatim>\<open>null\<close>, otherwise its
  \<^verbatim>\<open>buffer\<close>, which is \<open>None\<close> until one is assigned), and the request counter.  Then the
  handler that \<^verbatim>\<open>initReverbWorker\<close> installs, app.js 2769-2780; an exception leaves the
  state as it was.
\<close>

record audioState =
  audioContext :: "real option"
  reverbConvolver :: "audioBuffer option option"
  reverbRequestId :: nat

definition reverbWorkerOnMessage :: "impulseResponse \<Rightarrow> audioState \<Rightarrow> jsError + audioState" where
  "reverbWorkerOnMessage e s =
     (if audioContext s = None \<or> reverbConvolver s = None then Inr s
      else case createBuffer 2 (length' e) (sampleRate e) of
             Inl err \<Rightarrow> Inl err
           | Inr impulse \<Rightarrow>
               if length (channels e) < 2 then Inl TypeError
               else Inr (s\<lparr>reverbConvolver :=
                           Some (Some (copyToChannel (channels e ! 1) 1
                                         (copyToChannel (channels e ! 0) 0 impulse)))\<rparr>))"

text \<open>Responses handled in their order of arrival.\<close>

fun deliverResponses :: "impulseResponse list \<Rightarrow> audioState \<Rightarrow> audioState" where
  "deliverResponses [] s = s"
| "deliverResponses (e # es) s =
     deliverResponses es (case reverbWorkerOnMessage e s of Inl err \<Rightarrow> s | Inr s' \<Rightarrow> s')"

text \<open>
  \<^verbatim>\<open>updateReverbImpulse\<close>, app.js 2832-2847, on the worker path: the request that is
  posted and the incremented counter.
\<close>

definition postImpulseRequest :: "string \<Rightarrow> real \<Rightarrow> audioState \<Rightarrow> (impulseRequest \<times> audioState) option" where
  "postImpulseRequest reverbType reverbDecay s =
     (case (audioContext s, reverbConvolver s) of
        (Some rate, Some c) \<Rightarrow>
          Some (\<lparr>requestId = Suc (reverbRequestId s), requestSampleRate = rate,
                  requestType = reverbType, requestDecay = reverbDecay\<rparr>,
                s\<lparr>reverbRequestId := Suc (reverbRequestId s)\<rparr>)
      | _ \<Rightarrow> None)"

section \<open>Auxiliary notions and example states\<close>

text \<open>
  The speed that the ramp branch assigns at a frame with timestamp \<open>t\<close> when the ramp
  began at \<open>t0\<close> from speed 0 (lines 3163-3166 with \<^verbatim>\<open>rampStartSpeed\<close> = 0); used to
  state the lemmas about the ramp.
\<close>

definition rampSpeedAt :: "real \<Rightarrow> real \<Rightarrow> real" where
  "rampSpeedAt t0 t = easeInOutCubic (min ((t - t0) / RAMP_DURATION) 1)"

text \<open>The defaults of the settings object, app.js 2227-2228.\<close>

definition defaultSettings :: settings where
  "defaultSettings = \<lparr>cyclesPerMinute = 40, motionType = ''sine''\<rparr>"

text \<open>
  The delta time of a frame (lines 3119-3123): 0 for the first frame, otherwise the
  distance to the previous timestamp, capped at 50.
\<close>

definition frameDelta :: "real \<Rightarrow> motion \<Rightarrow> real" where
  "frameDelta timestamp m =
     min (timestamp - (case lastTimestamp m of None \<Rightarrow> timestamp | Some t \<Rightarrow> t)) 50"

text \<open>
  An example state: steady playback with the default settings, 749 ms into the 1500 ms
  period, that is just before the ball returns to the centre from the right.
\<close>

definition steadyNearCentre :: motion where
  "steadyNearCentre =
     \<lparr>ballPosition = sin (749 / 1500 * pi * 2), isPlaying = True, speedMultiplier = 1,
      lastTimestamp = Some 1000, virtualTime = 749, rampStartTime = Some 0,
      rampDirection = None, rampStartSpeed = 0, isDecelerating = False,
      decelStartPosition = 0, waitingForEdge = False\<rparr>"

text \<open>
  Two more example states, both waiting for the edge at full speed with 40 cycles per
  minute: one 1100 ms into the period (the ball moves toward the left edge), one 300 ms
  into the period with the triangle motion (the ball moves toward the right edge).
\<close>

definition triangleSettings :: settings where
  "triangleSettings = \<lparr>cyclesPerMinute = 40, motionType = ''triangle''\<rparr>"

definition waitingTowardLeftEdge :: motion where
  "waitingTowardLeftEdge =
     \<lparr>ballPosition = sin (1100 / 1500 * pi * 2), isPlaying = False, speedMultiplier = 1,
      lastTimestamp = Some 1000, virtualTime = 1100, rampStartTime = Some 0,
      rampDirection = None, rampStartSpeed = 0, isDecelerating = False,
      decelStartPosition = 0, waitingForEdge = True\<rparr>"

definition waitingTriangle :: motion where
  "waitingTriangle =
     \<lparr>ballPosition = 4 / 5, isPlaying = False, speedMultiplier = 1,
      lastTimestamp = Some 1000, virtualTime = 300, rampStartTime = Some 0,
      rampDirection = None, rampStartSpeed = 0, isDecelerating = False,
      decelStartPosition = 0, waitingForEdge = True\<rparr>"

text \<open>
  An example state: decelerating with the default settings from the position 1/2,
  625 ms into the period, where the ball heads toward the centre.
\<close>

definition deceleratingFromHalf :: motion where
  "deceleratingFromHalf =
     \<lparr>ballPosition = 1 / 2, isPlaying = False, speedMultiplier = 1,
      lastTimestamp = Some 1000, virtualTime = 625, rampStartTime = Some 0,
      rampDirection = None, rampStartSpeed = 0, isDecelerating = True,
      decelStartPosition = 1 / 2, waitingForEdge = False\<rparr>"

text \<open>
  States of one run with the default settings, used to evaluate the code: steady playback
  at a frame timestamp and virtual time; the state after a pause 300 ms into the period
  (heading toward the right edge); and a deceleration that began at the edge threshold,
  350 ms into the period, where the position is cos (pi / 30).
\<close>

definition steadyAt :: "real \<Rightarrow> real \<Rightarrow> motion" where
  "steadyAt t vt =
     \<lparr>ballPosition = wavePosition defaultSettings vt, isPlaying = True, speedMultiplier = 1,
      lastTimestamp = Some t, virtualTime = vt, rampStartTime = Some 0,
      rampDirection = None, rampStartSpeed = 0, isDecelerating = False,
      decelStartPosition = 0, waitingForEdge = False\<rparr>"

definition waitingAt300 :: motion where
  "waitingAt300 = (steadyAt 1100 300)\<lparr>isPlaying := False, waitingForEdge := True\<rparr>"

definition deceleratingAt :: "real \<Rightarrow> real \<Rightarrow> real \<Rightarrow> motion" where
  "deceleratingAt t vt sp =
     \<lparr>ballPosition = wavePosition defaultSettings vt, isPlaying = False, speedMultiplier = sp,
      lastTimestamp = Some t, virtualTime = vt, rampStartTime = Some 0,
      rampDirection = None, rampStartSpeed = 0, isDecelerating = True,
      decelStartPosition = cos (pi / 30), waitingForEdge = False\<rparr>"

text \<open>
  An example music state: a 120 s buffer playing at rate 1, half a second before its end,
  last updated at audio time 10.
\<close>

definition musicExample :: music where
  "musicExample =
     \<lparr>musicBuffer = Some 120, musicSource = Some 1, musicPausedAt = 239 / 2,
      musicIsPlaying = True, lastMusicUpdateTime = 10\<rparr>"

text \<open>
  The duration multipliers as the specification lists them, with the room value for every
  type that is none of the four, and the sample count that the code computes from a
  multiplier: the products are rounded to binary64 before the floor is taken.
\<close>

definition nominalMultiplier :: "string \<Rightarrow> real" where
  "nominalMultiplier type =
     (if type = ''hall'' then 1.2
      else if type = ''plate'' then 0.9
      else if type = ''cathedral'' then 1.5
      else 0.7)"

definition impulseLength :: "real \<Rightarrow> real \<Rightarrow> real \<Rightarrow> int" where
  "impulseLength mult decay rate = \<lfloor>binary64 (rate * min (binary64 (mult * decay)) 6)\<rfloor>"

text \<open>A response as the worker produces it: two channels of the announced length.\<close>

definition wellFormedResponse :: "impulseResponse \<Rightarrow> bool" where
  "wellFormedResponse e \<longleftrightarrow>
     1 \<le> length' e \<and> length (channels e) = 2
     \<and> int (length (channels e ! 0)) = length' e \<and> int (length (channels e ! 1)) = length' e"

text \<open>
  The buffer the handler builds from such a response: two channels, the announced length
  and sample rate, and the received samples.
\<close>

definition impulseOfResponse :: "impulseResponse \<Rightarrow> audioBuffer" where
  "impulseOfResponse e =
     \<lparr>numberOfChannels = 2, bufferLength = length' e, bufferSampleRate = sampleRate e,
      channelData = [channels e ! 0, channels e ! 1]\<rparr>"

text \<open>
  Example states of the reverb: an audio side with context and convolver after two
  requests, the response to the second request, and the response to the first.
\<close>

definition audioReady :: audioState where
  "audioReady = \<lparr>audioContext = Some 48000, reverbConvolver = Some None, reverbRequestId = 2\<rparr>"

definition newerResponse :: impulseResponse where
  "newerResponse = \<lparr>channels = [[1 / 2], [1 / 4]], length' = 1, sampleRate = 48000, id' = 2\<rparr>"

definition staleResponse :: impulseResponse where
  "staleResponse = \<lparr>channels = [[1 / 8], [1 / 16]], length' = 1, sampleRate = 48000, id' = 1\<rparr>"

section \<open>Properties\<close>

subsection \<open>Properties of the waveform\<close>

lemma jsRem_nonneg_range:
  assumes "0 < y" and "0 \<le> x"
  shows "0 \<le> jsRem x y \<and> jsRem x y < y"
proof -
  have q: "0 \<le> x / y" using assms by simp
  have lo: "of_int \<lfloor>x / y\<rfloor> * y \<le> x" using assms(1) by (rule floor_divide_lower)
  have hi: "x < (of_int \<lfloor>x / y\<rfloor> + 1) * y" using assms(1) by (rule floor_divide_upper)
  have "jsRem x y = x - y * of_int \<lfloor>x / y\<rfloor>" using q by (simp add: jsRem_def)
  then show ?thesis using lo hi by (simp add: algebra_simps)
qed

lemma jsRem_neg_range:
  assumes "0 < y" and "x < 0"
  shows "- y < jsRem x y \<and> jsRem x y \<le> 0"
proof -
  have q: "\<not> 0 \<le> x / y" using assms by (simp add: divide_less_0_iff not_le)
  have hi: "x \<le> of_int \<lceil>x / y\<rceil> * y" using assms(1) by (rule ceiling_divide_upper)
  have lo: "(of_int \<lceil>x / y\<rceil> - 1) * y < x" using assms(1) by (rule ceiling_divide_lower)
  have "jsRem x y = x - y * of_int \<lceil>x / y\<rceil>" using q by (simp add: jsRem_def)
  then show ?thesis using lo hi by (simp add: algebra_simps)
qed

lemma cycleProgress_range:
  assumes "0 < p"
  shows "0 \<le> jsRem (jsRem vt p + p) p / p \<and> jsRem (jsRem vt p + p) p / p < 1"
proof -
  have "0 \<le> jsRem vt p + p"
    using jsRem_nonneg_range [OF assms, of vt] jsRem_neg_range [OF assms, of vt] assms
    by (cases "0 \<le> vt") auto
  then have "0 \<le> jsRem (jsRem vt p + p) p \<and> jsRem (jsRem vt p + p) p < p"
    by (rule jsRem_nonneg_range [OF assms])
  then show ?thesis using assms by simp
qed

lemma triangle_branches_bounded:
  fixes c :: real
  assumes "0 \<le> c \<and> c < 1"
  shows "- 1 \<le> (if c < 0.25 then c * 4
                else if c < 0.75 then 1 - ((c - 0.25) * 4) else - 1 + ((c - 0.75) * 4))
       \<and> (if c < 0.25 then c * 4
            else if c < 0.75 then 1 - ((c - 0.25) * 4) else - 1 + ((c - 0.75) * 4)) \<le> 1"
  using assms by auto

lemma period_pos: "0 < cyclesPerMinute cfg \<Longrightarrow> 0 < period cfg"
  by (simp add: period_def)

text \<open>
  Claim C8.  For every positive cycles-per-minute setting and both motion types, the
  position derived from any virtual time (in particular every virtual time that is not
  negative) lies between -1 and 1; the three branches of the triangle stay in range
  because the cycle progress lies in the half-open interval from 0 to 1.
\<close>

theorem wavePosition_bounded:
  assumes "0 < cyclesPerMinute cfg"
  shows "- 1 \<le> wavePosition cfg vt \<and> wavePosition cfg vt \<le> 1"
proof (cases "motionType cfg = ''sine''")
  case True
  then show ?thesis by (simp add: wavePosition_def)
next
  case False
  have "0 < period cfg" using assms by (rule period_pos)
  then have "0 \<le> jsRem (jsRem vt (period cfg) + period cfg) (period cfg) / period cfg
      \<and> jsRem (jsRem vt (period cfg) + period cfg) (period cfg) / period cfg < 1"
    by (rule cycleProgress_range)
  then show ?thesis
    using False triangle_branches_bounded
    by (simp only: wavePosition_def Let_def if_False)
qed

theorem wavePosition_bounded_witness:
  "0 < cyclesPerMinute \<lparr>cyclesPerMinute = 40, motionType = ''triangle''\<rparr>
   \<and> - 1 \<le> wavePosition \<lparr>cyclesPerMinute = 40, motionType = ''triangle''\<rparr> 1000
   \<and> wavePosition \<lparr>cyclesPerMinute = 40, motionType = ''triangle''\<rparr> 1000 \<le> 1"
  using wavePosition_bounded [of "\<lparr>cyclesPerMinute = 40, motionType = ''triangle''\<rparr>" 1000]
  by simp

subsection \<open>The ramp-up\<close>


lemma easeInOutCubic_mono:
  assumes "a \<le> b"
  shows "easeInOutCubic a \<le> easeInOutCubic b"
proof -
  have cube: "\<And>x y :: real. x \<le> y \<Longrightarrow> x ^ 3 \<le> y ^ 3"
    by (rule power_mono_odd) simp_all
  consider "b < 0.5" | "a < 0.5" "0.5 \<le> b" | "0.5 \<le> a"
    using assms by linarith
  then show ?thesis
  proof cases
    case 1
    then have "a < 0.5" using assms by simp
    moreover have "a ^ 3 \<le> b ^ 3" using assms by (rule cube)
    ultimately show ?thesis using 1 by (simp add: easeInOutCubic_def power3_eq_cube)
  next
    case 2
    have "a ^ 3 \<le> (1/2) ^ 3" using 2(1) by (intro cube) simp
    then have lo: "4 * a * a * a \<le> 1 / 2" by (simp add: power3_eq_cube)
    have "(- 2 * b + 2) ^ 3 \<le> 1 ^ 3" using 2(2) by (intro cube) simp
    then have hi: "1 / 2 \<le> 1 - (- 2 * b + 2) ^ 3 / 2" by simp
    show ?thesis using 2 lo hi by (simp add: easeInOutCubic_def)
  next
    case 3
    then have b: "0.5 \<le> b" using assms by simp
    have "(- 2 * b + 2) ^ 3 \<le> (- 2 * a + 2) ^ 3" using assms by (intro cube) simp
    then show ?thesis using 3 b by (simp add: easeInOutCubic_def)
  qed
qed

lemma easeInOutCubic_0: "easeInOutCubic 0 = 0"
  by (simp add: easeInOutCubic_def)

lemma easeInOutCubic_1: "easeInOutCubic 1 = 1"
  by (simp add: easeInOutCubic_def)


lemma rampSpeedAt_mono: "s \<le> t \<Longrightarrow> rampSpeedAt t0 s \<le> rampSpeedAt t0 t"
  unfolding rampSpeedAt_def
  by (intro easeInOutCubic_mono min.mono divide_right_mono) (simp_all add: RAMP_DURATION_def)

lemma rampSpeedAt_le_1: "rampSpeedAt t0 t \<le> 1"
  using easeInOutCubic_mono [of "min ((t - t0) / RAMP_DURATION) 1" 1]
  by (simp add: rampSpeedAt_def easeInOutCubic_1)

lemma rampSpeedAt_nonneg: "t0 \<le> t \<Longrightarrow> 0 \<le> rampSpeedAt t0 t"
  using easeInOutCubic_mono [of 0 "min ((t - t0) / RAMP_DURATION) 1"]
  by (simp add: rampSpeedAt_def easeInOutCubic_0 RAMP_DURATION_def)

lemma rampSpeedAt_done:
  assumes "t0 + RAMP_DURATION \<le> t"
  shows "rampSpeedAt t0 t = 1"
proof -
  have "1 \<le> (t - t0) / RAMP_DURATION" using assms by (simp add: RAMP_DURATION_def)
  then have "min ((t - t0) / RAMP_DURATION) 1 = 1" by (rule min_absorb2)
  then show ?thesis by (simp add: rampSpeedAt_def easeInOutCubic_1)
qed

lemma ramp_frame:
  assumes "\<not> waitingForEdge m" and "\<not> isDecelerating m" and "rampDirection m = Some ''up''"
    and "rampStartSpeed m = 0" and "rampStartTime m = Some t0"
  shows "speedMultiplier (calculateBallPosition cfg t m) = rampSpeedAt t0 t"
    and "rampDirection (calculateBallPosition cfg t m)
           = (if t0 + RAMP_DURATION \<le> t then None else Some ''up'')"
    and "\<not> waitingForEdge (calculateBallPosition cfg t m)"
    and "\<not> isDecelerating (calculateBallPosition cfg t m)"
    and "rampStartSpeed (calculateBallPosition cfg t m) = 0"
    and "rampStartTime (calculateBallPosition cfg t m) = Some t0"
  using assms
  by (simp_all add: calculateBallPosition_def finishFrame_def rampUpStep_def rampSpeedAt_def
      Let_def numOrZero_def RAMP_DURATION_def min_def)

lemma steady_frame:
  assumes "\<not> waitingForEdge m" and "\<not> isDecelerating m" and "rampDirection m = None"
  shows "speedMultiplier (calculateBallPosition cfg t m) = speedMultiplier m"
    and "rampDirection (calculateBallPosition cfg t m) = None"
    and "\<not> waitingForEdge (calculateBallPosition cfg t m)"
    and "\<not> isDecelerating (calculateBallPosition cfg t m)"
    and "rampStartSpeed (calculateBallPosition cfg t m) = rampStartSpeed m"
    and "rampStartTime (calculateBallPosition cfg t m) = rampStartTime m"
  using assms
  by (simp_all add: calculateBallPosition_def finishFrame_def normalPlaybackStep_def Let_def)

lemma ramp_trace_closed_form:
  assumes "\<not> waitingForEdge m" and "\<not> isDecelerating m"
    and "rampStartSpeed m = 0" and "rampStartTime m = Some t0"
    and "rampDirection m = Some ''up''
         \<or> (rampDirection m = None \<and> speedMultiplier m = 1 \<and> t0 + RAMP_DURATION \<le> lo)"
    and "sorted_wrt (<) ts" and "\<forall>t\<in>set ts. lo \<le> t"
  shows "map speedMultiplier (frameTrace cfg ts m) = map (rampSpeedAt t0) ts
       \<and> map rampDirection (frameTrace cfg ts m)
           = map (\<lambda>t. if t0 + RAMP_DURATION \<le> t then None else Some ''up'') ts
       \<and> (\<forall>s\<in>set (frameTrace cfg ts m). \<not> waitingForEdge s \<and> \<not> isDecelerating s)"
  using assms
proof (induction ts arbitrary: m lo)
  case Nil
  then show ?case by simp
next
  case (Cons t ts)
  let ?m' = "calculateBallPosition cfg t m"
  have lo_t: "lo \<le> t" using Cons.prems(7) by simp
  have later: "\<forall>u\<in>set ts. t \<le> u" using Cons.prems(6) by auto
  have sorted_ts: "sorted_wrt (<) ts" using Cons.prems(6) by simp
  have here: "speedMultiplier ?m' = rampSpeedAt t0 t
      \<and> rampDirection ?m' = (if t0 + RAMP_DURATION \<le> t then None else Some ''up'')
      \<and> \<not> waitingForEdge ?m' \<and> \<not> isDecelerating ?m'
      \<and> rampStartSpeed ?m' = 0 \<and> rampStartTime ?m' = Some t0"
  proof (cases "rampDirection m = Some ''up''")
    case True
    show ?thesis
      using ramp_frame [OF Cons.prems(1) Cons.prems(2) True Cons.prems(3) Cons.prems(4), of cfg t]
      by simp
  next
    case False
    then have none: "rampDirection m = None" and one: "speedMultiplier m = 1"
      and fin: "t0 + RAMP_DURATION \<le> lo"
      using Cons.prems(5) by auto
    have "t0 + RAMP_DURATION \<le> t" using fin lo_t by simp
    then show ?thesis
      using steady_frame [OF Cons.prems(1) Cons.prems(2) none, of cfg t] one
        Cons.prems(3) Cons.prems(4) rampSpeedAt_done [of t0 t]
      by simp
  qed
  have inv: "rampDirection ?m' = Some ''up''
         \<or> (rampDirection ?m' = None \<and> speedMultiplier ?m' = 1 \<and> t0 + RAMP_DURATION \<le> t)"
    using here rampSpeedAt_done [of t0 t] by (cases "t0 + RAMP_DURATION \<le> t") simp_all
  have IH: "map speedMultiplier (frameTrace cfg ts ?m') = map (rampSpeedAt t0) ts
       \<and> map rampDirection (frameTrace cfg ts ?m')
           = map (\<lambda>t. if t0 + RAMP_DURATION \<le> t then None else Some ''up'') ts
       \<and> (\<forall>s\<in>set (frameTrace cfg ts ?m'). \<not> waitingForEdge s \<and> \<not> isDecelerating s)"
    using here by (intro Cons.IH [OF _ _ _ _ inv sorted_ts later]) simp_all
  show ?case using here IH by simp
qed

lemma sorted_map_rampSpeedAt:
  assumes "sorted_wrt (<) ts"
  shows "sorted (map (rampSpeedAt t0) ts)"
  using assms
proof (induction ts)
  case Nil
  then show ?case by simp
next
  case (Cons t ts)
  have "rampSpeedAt t0 t \<le> rampSpeedAt t0 u" if "u \<in> set ts" for u
  proof -
    have "t \<le> u" using Cons.prems that by auto
    then show ?thesis by (rule rampSpeedAt_mono)
  qed
  then have "\<forall>u\<in>set ts. rampSpeedAt t0 t \<le> rampSpeedAt t0 u" by blast
  then show ?case using Cons by simp
qed

text \<open>
  Claim C5.  Take a state in which a ramp-up has just begun from speed 0 at clock value
  \<open>t0\<close>, and frames with strictly increasing timestamps.  The speed multiplier after the
  frame at \<open>t\<close> is the cubic ease-in-out of min ((t - t0) / 800) 1; it does not decrease
  from frame to frame, it never exceeds 1, and at every frame that is at least
  \<open>RAMP_DURATION\<close> after \<open>t0\<close> it is exactly 1, the ramp flag is cleared and the
  state is steady.  When no frame precedes \<open>t0\<close>, the sequence is non-decreasing from the
  initial 0 on.
\<close>

theorem ramp_up_monotone_reaches_one:
  assumes "rampDirection m = Some ''up''" and "\<not> waitingForEdge m" and "\<not> isDecelerating m"
    and "rampStartSpeed m = 0" and "speedMultiplier m = 0" and "rampStartTime m = Some t0"
    and "sorted_wrt (<) ts"
  shows "map speedMultiplier (frameTrace cfg ts m) = map (rampSpeedAt t0) ts
       \<and> sorted (map speedMultiplier (frameTrace cfg ts m))
       \<and> (\<forall>i<length ts. speedMultiplier (frameTrace cfg ts m ! i) \<le> 1
            \<and> (t0 + RAMP_DURATION \<le> ts ! i \<longrightarrow>
                 speedMultiplier (frameTrace cfg ts m ! i) = 1
                 \<and> rampDirection (frameTrace cfg ts m ! i) = None
                 \<and> phaseState (frameTrace cfg ts m ! i) = Steady))
       \<and> ((\<forall>t\<in>set ts. t0 \<le> t) \<longrightarrow>
             sorted (map speedMultiplier (m # frameTrace cfg ts m)))"
proof -
  have inv: "rampDirection m = Some ''up''
         \<or> (rampDirection m = None \<and> speedMultiplier m = 1 \<and> t0 + RAMP_DURATION \<le> lo)" for lo
    using assms(1) by simp
  obtain lo where lo: "\<forall>t\<in>set ts. lo \<le> t"
  proof (cases ts)
    case Nil
    then show ?thesis using that [of 0] by simp
  next
    case (Cons t rest)
    then have "\<forall>u\<in>set ts. t \<le> u" using assms(7) by auto
    then show ?thesis by (rule that)
  qed
  note closed = ramp_trace_closed_form [OF assms(2) assms(3) assms(4) assms(6) inv assms(7) lo,
      of cfg]
  have speeds: "map speedMultiplier (frameTrace cfg ts m) = map (rampSpeedAt t0) ts"
    and dirs: "map rampDirection (frameTrace cfg ts m)
           = map (\<lambda>t. if t0 + RAMP_DURATION \<le> t then None else Some ''up'') ts"
    and flags: "\<forall>s\<in>set (frameTrace cfg ts m). \<not> waitingForEdge s \<and> \<not> isDecelerating s"
    using closed by simp_all
  have len: "length (frameTrace cfg ts m) = length ts"
    using speeds by (metis length_map)
  have sorted: "sorted (map speedMultiplier (frameTrace cfg ts m))"
    unfolding speeds using assms(7) by (rule sorted_map_rampSpeedAt)
  have frames: "speedMultiplier (frameTrace cfg ts m ! i) \<le> 1
            \<and> (t0 + RAMP_DURATION \<le> ts ! i \<longrightarrow>
                 speedMultiplier (frameTrace cfg ts m ! i) = 1
                 \<and> rampDirection (frameTrace cfg ts m ! i) = None
                 \<and> phaseState (frameTrace cfg ts m ! i) = Steady)"
    if "i < length ts" for i
  proof -
    have i: "i < length (frameTrace cfg ts m)" using that len by simp
    have sp: "speedMultiplier (frameTrace cfg ts m ! i) = rampSpeedAt t0 (ts ! i)"
      using arg_cong [OF speeds, of "\<lambda>l. l ! i"] that i by simp
    have dir: "rampDirection (frameTrace cfg ts m ! i)
        = (if t0 + RAMP_DURATION \<le> ts ! i then None else Some ''up'')"
      using arg_cong [OF dirs, of "\<lambda>l. l ! i"] that i by simp
    have fl: "\<not> waitingForEdge (frameTrace cfg ts m ! i) \<and> \<not> isDecelerating (frameTrace cfg ts m ! i)"
      using flags i by simp
    show ?thesis
      using sp dir fl rampSpeedAt_le_1 [of t0 "ts ! i"] rampSpeedAt_done [of t0 "ts ! i"]
      by (simp add: phaseState_def)
  qed
  have from_start: "sorted (map speedMultiplier (m # frameTrace cfg ts m))"
    if "\<forall>t\<in>set ts. t0 \<le> t"
  proof -
    have "\<forall>x\<in>set (map (rampSpeedAt t0) ts). 0 \<le> x"
      using that by (auto intro: rampSpeedAt_nonneg)
    then have "sorted (0 # map (rampSpeedAt t0) ts)"
      using sorted unfolding speeds by simp
    then show ?thesis using assms(5) speeds by simp
  qed
  show ?thesis using speeds sorted frames from_start by blast
qed


theorem ramp_up_monotone_reaches_one_witness:
  "map speedMultiplier
     (frameTrace defaultSettings [16, 400, 800, 1000] (togglePlayPause defaultSettings 0 initialMotion))
     = [1 / 31250, 1 / 2, 1, 1]
   \<and> sorted (map speedMultiplier
       (togglePlayPause defaultSettings 0 initialMotion
        # frameTrace defaultSettings [16, 400, 800, 1000]
            (togglePlayPause defaultSettings 0 initialMotion)))"
proof -
  let ?m = "togglePlayPause defaultSettings 0 initialMotion"
  have h1: "rampDirection ?m = Some ''up''" by (simp add: togglePlayPause_def initialMotion_def)
  have h2: "\<not> waitingForEdge ?m" by (simp add: togglePlayPause_def initialMotion_def)
  have h3: "\<not> isDecelerating ?m" by (simp add: togglePlayPause_def initialMotion_def)
  have h4: "rampStartSpeed ?m = 0" by (simp add: togglePlayPause_def initialMotion_def)
  have h5: "speedMultiplier ?m = 0" by (simp add: togglePlayPause_def initialMotion_def)
  have h6: "rampStartTime ?m = Some 0" by (simp add: togglePlayPause_def initialMotion_def)
  have h7: "sorted_wrt (<) [16, 400, 800, 1000 :: real]" by simp
  have h8: "\<forall>t\<in>set [16, 400, 800, 1000 :: real]. 0 \<le> t" by simp
  have speeds_at: "map (rampSpeedAt 0) [16, 400, 800, 1000] = [1 / 31250, 1 / 2, 1, 1]"
    by (simp add: rampSpeedAt_def RAMP_DURATION_def easeInOutCubic_def)
  note inst = ramp_up_monotone_reaches_one [OF h1 h2 h3 h4 h5 h6 h7, of defaultSettings]
  show ?thesis
    using inst [THEN conjunct1]
      inst [THEN conjunct2, THEN conjunct2, THEN conjunct2, THEN mp, OF h8]
    unfolding speeds_at by (intro conjI)
qed

subsection \<open>The cap on the delta time\<close>

text \<open>
  A frame during the ramp-up: the play button is pressed at clock value 0 and a first
  frame arrives at 0.  A second frame 5000 ms later advances the virtual time by 50 ms,
  a second frame 50 ms later by 25/512 ms, because the ramp reads the timestamp itself.
\<close>

theorem delta_clamp_counterexample:
  "virtualTime (calculateBallPosition \<lparr>cyclesPerMinute = 40, motionType = ''sine''\<rparr> (0 + 5000)
      (animate \<lparr>cyclesPerMinute = 40, motionType = ''sine''\<rparr> 0
        (togglePlayPause \<lparr>cyclesPerMinute = 40, motionType = ''sine''\<rparr> 0 initialMotion))) = 50
   \<and> virtualTime (calculateBallPosition \<lparr>cyclesPerMinute = 40, motionType = ''sine''\<rparr> (0 + 50)
      (animate \<lparr>cyclesPerMinute = 40, motionType = ''sine''\<rparr> 0
        (togglePlayPause \<lparr>cyclesPerMinute = 40, motionType = ''sine''\<rparr> 0 initialMotion))) = 25 / 512
   \<and> lastTimestamp (animate \<lparr>cyclesPerMinute = 40, motionType = ''sine''\<rparr> 0
        (togglePlayPause \<lparr>cyclesPerMinute = 40, motionType = ''sine''\<rparr> 0 initialMotion)) = Some 0"
  by (simp add: calculateBallPosition_def finishFrame_def animate_def togglePlayPause_def
      initialMotion_def rampUpStep_def Let_def numOrZero_def RAMP_DURATION_def easeInOutCubic_def
      wavePosition_def period_def)

lemma waitingForEdgeStep_lastTimestamp:
  "waitingForEdgeStep cfg dt (m\<lparr>lastTimestamp := x\<rparr>) = (waitingForEdgeStep cfg dt m)\<lparr>lastTimestamp := x\<rparr>"
  by (simp add: waitingForEdgeStep_def Let_def)

lemma deceleratingStep_lastTimestamp:
  "deceleratingStep dt (m\<lparr>lastTimestamp := x\<rparr>) = (deceleratingStep dt m)\<lparr>lastTimestamp := x\<rparr>"
  by (simp add: deceleratingStep_def Let_def)

lemma normalPlaybackStep_lastTimestamp:
  "normalPlaybackStep dt (m\<lparr>lastTimestamp := x\<rparr>) = (normalPlaybackStep dt m)\<lparr>lastTimestamp := x\<rparr>"
  by (simp add: normalPlaybackStep_def)

lemma finishFrame_lastTimestamp:
  "finishFrame cfg p (m\<lparr>lastTimestamp := x\<rparr>) = (finishFrame cfg p m)\<lparr>lastTimestamp := x\<rparr>"
  by (simp add: finishFrame_def Let_def)

lemma frame_outside_ramp:
  assumes "lastTimestamp m = Some t"
    and "waitingForEdge m \<or> isDecelerating m \<or> rampDirection m \<noteq> Some ''up''"
  shows "calculateBallPosition cfg ts m
     = (finishFrame cfg (ballPosition m)
         (if waitingForEdge m then waitingForEdgeStep cfg (min (ts - t) 50) m
          else if isDecelerating m then deceleratingStep (min (ts - t) 50) m
          else normalPlaybackStep (min (ts - t) 50) m))\<lparr>lastTimestamp := Some ts\<rparr>"
  using assms
  by (auto simp add: calculateBallPosition_def Let_def numOrZero_def
        waitingForEdgeStep_lastTimestamp deceleratingStep_lastTimestamp
        normalPlaybackStep_lastTimestamp finishFrame_lastTimestamp)

lemma finishFrame_virtualTime:
  "(virtualTime (finishFrame cfg p m) = virtualTime m
      \<and> speedMultiplier (finishFrame cfg p m) = speedMultiplier m)
   \<or> (virtualTime (finishFrame cfg p m) = 0 \<and> speedMultiplier (finishFrame cfg p m) = 0)"
  by (simp add: finishFrame_def Let_def)

lemma branch_virtualTime:
  "virtualTime (waitingForEdgeStep cfg dt m)
     = virtualTime m + dt * speedMultiplier (waitingForEdgeStep cfg dt m)"
  "virtualTime (deceleratingStep dt m)
     = virtualTime m + dt * speedMultiplier (deceleratingStep dt m)"
  "virtualTime (rampUpStep ts dt m) = virtualTime m + dt * speedMultiplier (rampUpStep ts dt m)"
  "virtualTime (normalPlaybackStep dt m)
     = virtualTime m + dt * speedMultiplier (normalPlaybackStep dt m)"
  by (simp_all add: waitingForEdgeStep_def deceleratingStep_def rampUpStep_def
      normalPlaybackStep_def Let_def)

lemma frame_advance:
  assumes "lastTimestamp m = Some t"
  shows "virtualTime (calculateBallPosition cfg ts m)
           = virtualTime m + min (ts - t) 50 * speedMultiplier (calculateBallPosition cfg ts m)
       \<or> (virtualTime (calculateBallPosition cfg ts m) = 0
            \<and> speedMultiplier (calculateBallPosition cfg ts m) = 0)"
proof -
  let ?dt = "min (ts - t) 50"
  let ?m1 = "m\<lparr>lastTimestamp := Some ts\<rparr>"
  let ?m2 = "if waitingForEdge ?m1 then waitingForEdgeStep cfg ?dt ?m1
             else if isDecelerating ?m1 then deceleratingStep ?dt ?m1
             else if rampDirection ?m1 = Some ''up'' then rampUpStep ts ?dt ?m1
             else normalPlaybackStep ?dt ?m1"
  have eq: "calculateBallPosition cfg ts m = finishFrame cfg (ballPosition m) ?m2"
    using assms by (simp add: calculateBallPosition_def Let_def numOrZero_def)
  have m2: "virtualTime ?m2 = virtualTime m + ?dt * speedMultiplier ?m2"
    by (simp add: branch_virtualTime)
  have "(virtualTime (finishFrame cfg (ballPosition m) ?m2) = virtualTime ?m2
      \<and> speedMultiplier (finishFrame cfg (ballPosition m) ?m2) = speedMultiplier ?m2)
   \<or> (virtualTime (finishFrame cfg (ballPosition m) ?m2) = 0
      \<and> speedMultiplier (finishFrame cfg (ballPosition m) ?m2) = 0)"
    by (rule finishFrame_virtualTime)
  then show ?thesis unfolding eq using m2 by (elim disjE conjE) simp_all
qed

text \<open>
  Claim C6, as amended.  The delta time of a frame is capped at 50 ms and that of the
  interval ticker at 100 ms.  A frame whose raw delta is at least 50 ms advances the
  virtual time by exactly 50 ms times the speed multiplier of that frame (or resets it at
  a zero crossing).  When the frame does not take the ramp-up branch, a raw delta of 50 ms
  or more gives the same state as a raw delta of exactly 50 ms, up to the remembered
  timestamp, and so the same virtual time; on the interval path every raw delta of 100 ms
  or more gives the same motion state as 100 ms.  In the ramp-up branch the speed is
  computed from the unclamped timestamp, and the two frames can differ.
\<close>

theorem delta_clamp:
  assumes "lastTimestamp m = Some t"
  shows "(50 \<le> d \<longrightarrow>
            virtualTime (calculateBallPosition cfg (t + d) m)
              = virtualTime m + 50 * speedMultiplier (calculateBallPosition cfg (t + d) m)
          \<or> (virtualTime (calculateBallPosition cfg (t + d) m) = 0
               \<and> speedMultiplier (calculateBallPosition cfg (t + d) m) = 0))
       \<and> (50 \<le> d
            \<and> (waitingForEdge m \<or> isDecelerating m \<or> rampDirection m \<noteq> Some ''up'') \<longrightarrow>
            calculateBallPosition cfg (t + d) m
              = (calculateBallPosition cfg (t + 50) m)\<lparr>lastTimestamp := Some (t + d)\<rparr>
          \<and> virtualTime (calculateBallPosition cfg (t + d) m)
              = virtualTime (calculateBallPosition cfg (t + 50) m))
       \<and> (100 \<le> d \<longrightarrow>
            snd (audioLoopTick hidden (t + d) (t, m)) = snd (audioLoopTick hidden (t + 100) (t, m)))"
proof -
  have advance: "virtualTime (calculateBallPosition cfg (t + d) m)
              = virtualTime m + 50 * speedMultiplier (calculateBallPosition cfg (t + d) m)
          \<or> (virtualTime (calculateBallPosition cfg (t + d) m) = 0
               \<and> speedMultiplier (calculateBallPosition cfg (t + d) m) = 0)"
    if "50 \<le> d"
    using frame_advance [OF assms, of cfg "t + d"] that by simp
  have frame: "calculateBallPosition cfg (t + d) m
             = (calculateBallPosition cfg (t + 50) m)\<lparr>lastTimestamp := Some (t + d)\<rparr>"
    if "50 \<le> d" and "waitingForEdge m \<or> isDecelerating m \<or> rampDirection m \<noteq> Some ''up''"
    using that(1) by (simp add: frame_outside_ramp [OF assms that(2)])
  have interval: "snd (audioLoopTick hidden (t + d) (t, m)) = snd (audioLoopTick hidden (t + 100) (t, m))"
    if "100 \<le> d"
    using that by (simp add: audioLoopTick_def Let_def)
  show ?thesis using advance frame interval by simp
qed

theorem delta_clamp_witness:
  "virtualTime (calculateBallPosition \<lparr>cyclesPerMinute = 40, motionType = ''sine''\<rparr> (1000 + 5000)
       (initialMotion\<lparr>isPlaying := True, speedMultiplier := 1, lastTimestamp := Some 1000\<rparr>))
   = virtualTime (calculateBallPosition \<lparr>cyclesPerMinute = 40, motionType = ''sine''\<rparr> (1000 + 50)
       (initialMotion\<lparr>isPlaying := True, speedMultiplier := 1, lastTimestamp := Some 1000\<rparr>))"
proof -
  let ?m = "initialMotion\<lparr>isPlaying := True, speedMultiplier := 1, lastTimestamp := Some 1000\<rparr>"
  have h: "lastTimestamp ?m = Some 1000" by simp
  have out: "waitingForEdge ?m \<or> isDecelerating ?m \<or> rampDirection ?m \<noteq> Some ''up''"
    by (simp add: initialMotion_def)
  have big: "(50 :: real) \<le> 5000" by simp
  have pre: "(50 :: real) \<le> 5000 \<and> (waitingForEdge ?m \<or> isDecelerating ?m \<or> rampDirection ?m \<noteq> Some ''up'')"
    using big out by (rule conjI)
  note inst = delta_clamp [OF h, of 5000 "\<lparr>cyclesPerMinute = 40, motionType = ''sine''\<rparr>"]
  show ?thesis
    by (rule inst [THEN conjunct2, THEN conjunct1, THEN mp, OF pre, THEN conjunct2])
qed

subsection \<open>The decelerating branch\<close>

lemma period_default: "period defaultSettings = 1500"
  by (simp add: period_def defaultSettings_def)

lemma wavePosition_default: "wavePosition defaultSettings vt = sin (vt / 1500 * pi * 2)"
  by (simp add: wavePosition_def defaultSettings_def period_def)

lemma calc_decelerating:
  assumes "isDecelerating m" and "\<not> waitingForEdge m"
  shows "calculateBallPosition cfg ts m
     = finishFrame cfg (ballPosition m)
         (deceleratingStep (frameDelta ts m) (m\<lparr>lastTimestamp := Some ts\<rparr>))"
  using assms
  by (cases "lastTimestamp m")
     (simp_all add: calculateBallPosition_def Let_def numOrZero_def frameDelta_def)

lemma crossedZero_same: "\<not> crossedZero p p"
  by (simp add: crossedZero_def)

lemma sin_near_pi:
  "0 < sin (749 / 1500 * pi * 2)" "sin (749 / 1500 * pi * 2) \<le> 1 / 100"
  "cos (749 / 1500 * pi * 2) < 0"
proof -
  have eq: "749 / 1500 * pi * 2 = pi - pi / 750" by simp
  have pos: "0 < pi / 750" by simp
  have lt: "pi / 750 < pi / 2" by simp
  show "0 < sin (749 / 1500 * pi * 2)"
    unfolding eq sin_pi_minus using pos lt by (intro sin_gt_zero2)
  have "sin (pi / 750) \<le> pi / 750" using pos by (intro sin_x_le_x) simp
  also have "\<dots> \<le> 1 / 100" using pi_less_4 by simp
  finally show "sin (749 / 1500 * pi * 2) \<le> 1 / 100" unfolding eq sin_pi_minus .
  have "0 < cos (pi / 750)" using pos lt by (intro cos_gt_zero)
  then show "cos (749 / 1500 * pi * 2) < 0" unfolding eq cos_pi_minus by simp
qed

lemma decel_small_start_frame:
  assumes "isDecelerating m" and "\<not> waitingForEdge m"
    and "\<bar>decelStartPosition m\<bar> \<le> 0.01" and "ballPosition m = wavePosition cfg (virtualTime m)"
  shows "calculateBallPosition cfg ts m = m\<lparr>lastTimestamp := Some ts, speedMultiplier := 0\<rparr>"
proof -
  have step: "deceleratingStep (frameDelta ts m) (m\<lparr>lastTimestamp := Some ts\<rparr>)
      = m\<lparr>lastTimestamp := Some ts, speedMultiplier := 0\<rparr>"
    using assms(3) by (simp add: deceleratingStep_def Let_def)
  show ?thesis
    unfolding calc_decelerating [OF assms(1,2)] step using assms(1,4)
    by (simp add: finishFrame_def Let_def crossedZero_same)
qed

lemma decel_large_start_frame:
  assumes "isDecelerating m" and "\<not> waitingForEdge m" and "\<bar>decelStartPosition m\<bar> > 0.01"
  shows "calculateBallPosition cfg ts m
              = finishFrame cfg (ballPosition m)
                  (m\<lparr>lastTimestamp := Some ts,
                     speedMultiplier := max 0.08 (sqrt (\<bar>ballPosition m\<bar> / \<bar>decelStartPosition m\<bar>)),
                     virtualTime := virtualTime m + frameDelta ts m
                        * max 0.08 (sqrt (\<bar>ballPosition m\<bar> / \<bar>decelStartPosition m\<bar>))\<rparr>)"
  unfolding calc_decelerating [OF assms(1,2)] using assms(3)
  by (simp add: deceleratingStep_def Let_def)

lemma decel_small_start_stuck:
  assumes "isDecelerating m" and "\<not> waitingForEdge m"
    and "\<bar>decelStartPosition m\<bar> \<le> 0.01" and "ballPosition m = wavePosition cfg (virtualTime m)"
  shows "isDecelerating (repeatTick cfg dt n m) \<and> \<not> waitingForEdge (repeatTick cfg dt n m)
       \<and> virtualTime (repeatTick cfg dt n m) = virtualTime m
       \<and> ballPosition (repeatTick cfg dt n m) = ballPosition m"
  using assms
proof (induction n arbitrary: m)
  case 0
  then show ?case by simp
next
  case (Suc n)
  let ?m' = "fixedDeltaTick cfg dt m"
  have eq: "?m' = m\<lparr>lastTimestamp := Some (numOrZero (lastTimestamp m) + dt), speedMultiplier := 0\<rparr>"
    unfolding fixedDeltaTick_def by (rule decel_small_start_frame [OF Suc.prems])
  have p1: "isDecelerating ?m'" and p2: "\<not> waitingForEdge ?m'"
    and p3: "\<bar>decelStartPosition ?m'\<bar> \<le> 0.01"
    and p4: "ballPosition ?m' = wavePosition cfg (virtualTime ?m')"
    using Suc.prems unfolding eq by simp_all
  have "isDecelerating (repeatTick cfg dt n ?m') \<and> \<not> waitingForEdge (repeatTick cfg dt n ?m')
       \<and> virtualTime (repeatTick cfg dt n ?m') = virtualTime ?m'
       \<and> ballPosition (repeatTick cfg dt n ?m') = ballPosition ?m'"
    using p1 p2 p3 p4 by (rule Suc.IH)
  then show ?case by (simp add: eq)
qed

lemma pause_near_centre:
  "togglePlayPause defaultSettings 1000 steadyNearCentre
     = \<lparr>ballPosition = sin (749 / 1500 * pi * 2), isPlaying = False, speedMultiplier = 1,
        lastTimestamp = Some 1000, virtualTime = 749, rampStartTime = Some 0,
        rampDirection = None, rampStartSpeed = 0, isDecelerating = True,
        decelStartPosition = sin (749 / 1500 * pi * 2), waitingForEdge = False\<rparr>"
  using sin_near_pi(1) sin_near_pi(3)
  by (simp add: togglePlayPause_def Let_def isHeadingTowardZero_def getVelocityDirection_def
      steadyNearCentre_def defaultSettings_def period_def)

text \<open>
  Pause is pressed in the state \<open>steadyNearCentre\<close>: the ball heads toward the centre
  from a position below 0.01, so the deceleration starts with a captured start position
  of magnitude at most 0.01.  From then on every frame leaves the state decelerating,
  with the virtual time and the (non-zero) position unchanged: the state machine does not
  become idle.
\<close>

theorem decel_guard_counterexample:
  "isDecelerating (togglePlayPause defaultSettings 1000 steadyNearCentre)
   \<and> \<not> waitingForEdge (togglePlayPause defaultSettings 1000 steadyNearCentre)
   \<and> \<bar>decelStartPosition (togglePlayPause defaultSettings 1000 steadyNearCentre)\<bar> \<le> 0.01
   \<and> (\<forall>n. phaseState (repeatTick defaultSettings 16 n
              (togglePlayPause defaultSettings 1000 steadyNearCentre)) = Decelerating
          \<and> virtualTime (repeatTick defaultSettings 16 n
              (togglePlayPause defaultSettings 1000 steadyNearCentre)) = 749
          \<and> ballPosition (repeatTick defaultSettings 16 n
              (togglePlayPause defaultSettings 1000 steadyNearCentre)) \<noteq> 0)"
proof -
  let ?m = "togglePlayPause defaultSettings 1000 steadyNearCentre"
  have d: "isDecelerating ?m" and w: "\<not> waitingForEdge ?m"
    unfolding pause_near_centre by simp_all
  have small: "\<bar>decelStartPosition ?m\<bar> \<le> 0.01"
    unfolding pause_near_centre using sin_near_pi(1) sin_near_pi(2) by simp
  have cons: "ballPosition ?m = wavePosition defaultSettings (virtualTime ?m)"
    unfolding pause_near_centre by (simp add: wavePosition_default)
  have vt: "virtualTime ?m = 749" and pos: "ballPosition ?m \<noteq> 0"
    unfolding pause_near_centre using sin_near_pi(1) by simp_all
  have "phaseState (repeatTick defaultSettings 16 n ?m) = Decelerating
          \<and> virtualTime (repeatTick defaultSettings 16 n ?m) = 749
          \<and> ballPosition (repeatTick defaultSettings 16 n ?m) \<noteq> 0" for n
    using decel_small_start_stuck [OF d w small cons, of 16 n] vt pos
    by (simp add: phaseState_def)
  then show ?thesis using d w small by blast
qed

text \<open>
  Claim C4, as amended.  On a frame in the decelerating branch: when the captured start
  position has magnitude at most 0.01 (and the stored position is the waveform's value at
  the virtual time), no ratio is computed, the speed multiplier becomes 0, the virtual
  time and the position stay as they are, and the state remains decelerating; otherwise
  the speed multiplier is set to the maximum of 0.08 and the square root of
  |position| / |decelStartPosition|, the virtual time advances by the delta time times
  that speed, and the frame ends with the zero-crossing test.
\<close>

theorem decel_guard_amended:
  assumes "isDecelerating m" and "\<not> waitingForEdge m"
  shows "(\<bar>decelStartPosition m\<bar> \<le> 0.01 \<and> ballPosition m = wavePosition cfg (virtualTime m) \<longrightarrow>
            calculateBallPosition cfg ts m = m\<lparr>lastTimestamp := Some ts, speedMultiplier := 0\<rparr>
          \<and> phaseState (calculateBallPosition cfg ts m) = Decelerating)
       \<and> (\<bar>decelStartPosition m\<bar> > 0.01 \<longrightarrow>
            calculateBallPosition cfg ts m
              = finishFrame cfg (ballPosition m)
                  (m\<lparr>lastTimestamp := Some ts,
                     speedMultiplier := max 0.08 (sqrt (\<bar>ballPosition m\<bar> / \<bar>decelStartPosition m\<bar>)),
                     virtualTime := virtualTime m + frameDelta ts m
                        * max 0.08 (sqrt (\<bar>ballPosition m\<bar> / \<bar>decelStartPosition m\<bar>))\<rparr>))"
proof -
  have small: "calculateBallPosition cfg ts m = m\<lparr>lastTimestamp := Some ts, speedMultiplier := 0\<rparr>"
    if "\<bar>decelStartPosition m\<bar> \<le> 0.01" and "ballPosition m = wavePosition cfg (virtualTime m)"
    using assms that by (rule decel_small_start_frame)
  have phase: "phaseState (m\<lparr>lastTimestamp := Some ts, speedMultiplier := 0\<rparr>) = Decelerating"
    using assms by (simp add: phaseState_def)
  show ?thesis using small phase decel_large_start_frame [OF assms, of cfg ts] by simp
qed

theorem decel_guard_amended_witness:
  "calculateBallPosition defaultSettings 1016 (togglePlayPause defaultSettings 1000 steadyNearCentre)
     = (togglePlayPause defaultSettings 1000 steadyNearCentre)
         \<lparr>lastTimestamp := Some 1016, speedMultiplier := 0\<rparr>"
proof -
  let ?m = "togglePlayPause defaultSettings 1000 steadyNearCentre"
  have d: "isDecelerating ?m" and w: "\<not> waitingForEdge ?m"
    unfolding pause_near_centre by simp_all
  have small: "\<bar>decelStartPosition ?m\<bar> \<le> 0.01"
    unfolding pause_near_centre using sin_near_pi(1) sin_near_pi(2) by simp
  have cons: "ballPosition ?m = wavePosition defaultSettings (virtualTime ?m)"
    unfolding pause_near_centre by (simp add: wavePosition_default)
  note inst = decel_guard_amended [OF d w, of defaultSettings 1016]
  show ?thesis
    by (rule inst [THEN conjunct1, THEN mp, OF conjI [OF small cons], THEN conjunct1])
qed

subsection \<open>Waiting for the edge\<close>

lemma cos_ge_quadratic: "1 - x\<^sup>2 / 2 \<le> cos (x :: real)"
proof -
  have "\<bar>sin (x / 2)\<bar> \<le> \<bar>x / 2\<bar>" by (rule abs_sin_x_le_abs_x)
  then have "(sin (x / 2))\<^sup>2 \<le> (x / 2)\<^sup>2" by (simp only: abs_le_square_iff)
  moreover have "cos x = 1 - 2 * (sin (x / 2))\<^sup>2"
    using cos_double_sin [of "x / 2"] by simp
  ultimately show ?thesis by (simp add: power_divide)
qed

lemma cos_pi_30: "99 / 100 \<le> cos (pi / 30)" "cos (pi / 30) < 1"
proof -
  have "(pi / 30)\<^sup>2 \<le> (4 / 30)\<^sup>2"
    using pi_less_4 pi_gt_zero by (intro power_mono) simp_all
  then have "99 / 100 \<le> 1 - (pi / 30)\<^sup>2 / 2" by (simp add: power_divide)
  also have "\<dots> \<le> cos (pi / 30)" by (rule cos_ge_quadratic)
  finally show "99 / 100 \<le> cos (pi / 30)" .
  have "cos (pi / 30) < cos 0"
    using pi_gt_zero by (intro cos_monotone_0_pi) simp_all
  then show "cos (pi / 30) < 1" by simp
qed

lemma sin_350: "sin (350 / 1500 * pi * 2) = cos (pi / 30)"
proof -
  have "350 / 1500 * pi * 2 = pi / 2 - pi / 30" by simp
  then show ?thesis by (simp only: sin_cos_eq [of "pi / 2 - pi / 30"]) simp
qed

lemma sin_1100: "sin (1100 / 1500 * pi * 2) < 0"
proof -
  have eq: "1100 / 1500 * pi * 2 = 7 * pi / 15 + pi" by simp
  have "0 < sin (7 * pi / 15)" by (intro sin_gt_zero) simp_all
  then show ?thesis unfolding eq sin_periodic_pi by simp
qed

lemma sin_1125: "sin (1125 / 1500 * pi * 2) = - 1"
proof -
  have eq: "1125 / 1500 * pi * 2 = pi / 2 + pi" by simp
  show ?thesis unfolding eq sin_periodic_pi by simp
qed

lemma calc_waiting:
  assumes "waitingForEdge m"
  shows "calculateBallPosition cfg ts m
     = finishFrame cfg (ballPosition m)
         (waitingForEdgeStep cfg (frameDelta ts m) (m\<lparr>lastTimestamp := Some ts\<rparr>))"
  using assms
  by (cases "lastTimestamp m")
     (simp_all add: calculateBallPosition_def Let_def numOrZero_def frameDelta_def)

lemma jsRem_350: "jsRem (jsRem 350 1500 + 1500) 1500 = 350"
proof -
  have a: "jsRem 350 1500 = 350" by (simp add: jsRem_def)
  have "\<lfloor>(1850 :: real) / 1500\<rfloor> = 1" by (simp add: floor_eq_iff)
  then have "jsRem 1850 1500 = 350" by (simp add: jsRem_def)
  then show ?thesis by (simp add: a)
qed


lemma period_triangle: "period triangleSettings = 1500"
  by (simp add: period_def triangleSettings_def)

lemma left_edge_frame:
  "calculateBallPosition defaultSettings 1025 waitingTowardLeftEdge
     = \<lparr>ballPosition = - 1, isPlaying = False, speedMultiplier = 1,
        lastTimestamp = Some 1025, virtualTime = 1125, rampStartTime = Some 0,
        rampDirection = None, rampStartSpeed = 0, isDecelerating = True,
        decelStartPosition = - 1, waitingForEdge = False\<rparr>"
proof -
  have w: "waitingForEdge waitingTowardLeftEdge" by (simp add: waitingTowardLeftEdge_def)
  have dt: "frameDelta 1025 waitingTowardLeftEdge = 25"
    by (simp add: frameDelta_def waitingTowardLeftEdge_def)
  have vt: "virtualTime waitingTowardLeftEdge + 25 * speedMultiplier waitingTowardLeftEdge = 1125"
    by (simp add: waitingTowardLeftEdge_def)
  have step: "waitingForEdgeStep defaultSettings 25 (waitingTowardLeftEdge\<lparr>lastTimestamp := Some 1025\<rparr>)
      = waitingTowardLeftEdge\<lparr>lastTimestamp := Some 1025, virtualTime := 1125,
          waitingForEdge := False, isDecelerating := True, decelStartPosition := - 1\<rparr>"
    unfolding waitingForEdgeStep_def Let_def period_default
    using sin_1125 by (simp add: vt)
  show ?thesis
    unfolding calc_waiting [OF w] dt step finishFrame_def Let_def
    using sin_1100 sin_1125
    by (simp add: wavePosition_def defaultSettings_def period_def crossedZero_def
        waitingTowardLeftEdge_def)
qed


lemma triangle_frame:
  "calculateBallPosition triangleSettings 1050 waitingTriangle
     = \<lparr>ballPosition = 14 / 15, isPlaying = False, speedMultiplier = 1,
        lastTimestamp = Some 1050, virtualTime = 350, rampStartTime = Some 0,
        rampDirection = None, rampStartSpeed = 0, isDecelerating = True,
        decelStartPosition = cos (pi / 30), waitingForEdge = False\<rparr>"
proof -
  have w: "waitingForEdge waitingTriangle" by (simp add: waitingTriangle_def)
  have dt: "frameDelta 1050 waitingTriangle = 50"
    by (simp add: frameDelta_def waitingTriangle_def)
  have vt: "virtualTime waitingTriangle + 50 * speedMultiplier waitingTriangle = 350"
    by (simp add: waitingTriangle_def)
  have edge: "\<bar>cos (pi / 30)\<bar> \<ge> 0.99" using cos_pi_30(1) by simp
  have step: "waitingForEdgeStep triangleSettings 50 (waitingTriangle\<lparr>lastTimestamp := Some 1050\<rparr>)
      = waitingTriangle\<lparr>lastTimestamp := Some 1050, virtualTime := 350,
          waitingForEdge := False, isDecelerating := True, decelStartPosition := cos (pi / 30)\<rparr>"
    unfolding waitingForEdgeStep_def Let_def period_triangle
    using edge by (simp add: vt sin_350 [simplified])
  have wave: "wavePosition triangleSettings 350 = 14 / 15"
    unfolding wavePosition_def period_triangle Let_def jsRem_350
    by (simp add: triangleSettings_def)
  show ?thesis
    unfolding calc_waiting [OF w] dt step finishFrame_def Let_def
    by (simp add: wave crossedZero_def) (simp add: waitingTriangle_def)
qed


text \<open>
  Two frames that end the wait.  With the sine motion at the left edge the captured start
  position is the signed value -1 while the position has magnitude 1.  With the triangle
  motion the frame from 300 ms to 350 ms into the period starts the deceleration, because
  the sine of the phase is at least 0.99 there, although the position of the ball has
  magnitude 14/15 only (and had 4/5 before the frame).
\<close>

theorem wait_for_edge_counterexample:
  "decelStartPosition (calculateBallPosition defaultSettings 1025 waitingTowardLeftEdge) = - 1
   \<and> \<bar>ballPosition (calculateBallPosition defaultSettings 1025 waitingTowardLeftEdge)\<bar> = 1
   \<and> isDecelerating (calculateBallPosition triangleSettings 1050 waitingTriangle)
   \<and> \<bar>ballPosition (calculateBallPosition triangleSettings 1050 waitingTriangle)\<bar> = 14 / 15
   \<and> \<bar>ballPosition waitingTriangle\<bar> = 4 / 5"
  unfolding left_edge_frame triangle_frame by (simp add: waitingTriangle_def)

lemma pause_toward_edge:
  assumes "isPlaying m" and "\<not> isHeadingTowardZero cfg m"
  shows "togglePlayPause cfg now m
     = m\<lparr>isPlaying := False, waitingForEdge := True, rampDirection := None,
          speedMultiplier := 1\<rparr>"
proof -
  have "isHeadingTowardZero cfg (m\<lparr>isPlaying := False\<rparr>) = isHeadingTowardZero cfg m"
    by (simp add: isHeadingTowardZero_def getVelocityDirection_def Let_def)
  then show ?thesis using assms by (simp add: togglePlayPause_def Let_def)
qed

lemma waiting_frame_before_edge:
  assumes "motionType cfg = ''sine''" and "waitingForEdge m" and "\<not> isDecelerating m"
    and "\<bar>wavePosition cfg (virtualTime m + frameDelta ts m * speedMultiplier m)\<bar> < 0.99"
  shows "calculateBallPosition cfg ts m
     = m\<lparr>lastTimestamp := Some ts,
          virtualTime := virtualTime m + frameDelta ts m * speedMultiplier m,
          ballPosition := wavePosition cfg (virtualTime m + frameDelta ts m * speedMultiplier m)\<rparr>"
proof -
  have step: "waitingForEdgeStep cfg (frameDelta ts m) (m\<lparr>lastTimestamp := Some ts\<rparr>)
     = m\<lparr>lastTimestamp := Some ts,
          virtualTime := virtualTime m + frameDelta ts m * speedMultiplier m\<rparr>"
    using assms(1,4) by (simp add: waitingForEdgeStep_def wavePosition_def Let_def)
  show ?thesis
    unfolding calc_waiting [OF assms(2)] step using assms(3)
    by (simp add: finishFrame_def Let_def)
qed

lemma waiting_frame_at_edge:
  assumes "motionType cfg = ''sine''" and "waitingForEdge m"
    and "\<bar>wavePosition cfg (virtualTime m + frameDelta ts m * speedMultiplier m)\<bar> \<ge> 0.99"
    and "\<not> crossedZero (ballPosition m)
           (wavePosition cfg (virtualTime m + frameDelta ts m * speedMultiplier m))"
  shows "calculateBallPosition cfg ts m
     = m\<lparr>lastTimestamp := Some ts,
          virtualTime := virtualTime m + frameDelta ts m * speedMultiplier m,
          ballPosition := wavePosition cfg (virtualTime m + frameDelta ts m * speedMultiplier m),
          waitingForEdge := False, isDecelerating := True,
          decelStartPosition :=
            wavePosition cfg (virtualTime m + frameDelta ts m * speedMultiplier m)\<rparr>"
proof -
  have step: "waitingForEdgeStep cfg (frameDelta ts m) (m\<lparr>lastTimestamp := Some ts\<rparr>)
     = m\<lparr>lastTimestamp := Some ts,
          virtualTime := virtualTime m + frameDelta ts m * speedMultiplier m,
          waitingForEdge := False, isDecelerating := True,
          decelStartPosition :=
            wavePosition cfg (virtualTime m + frameDelta ts m * speedMultiplier m)\<rparr>"
    using assms(1,3) by (simp add: waitingForEdgeStep_def wavePosition_def Let_def)
  show ?thesis
    unfolding calc_waiting [OF assms(2)] step using assms(4)
    by (simp add: finishFrame_def Let_def)
qed

text \<open>
  Claim C2, as amended, for the sine motion.  A pause pressed while the ball is not
  heading toward zero sets the wait-for-edge flag, clears the ramp and forces the speed
  multiplier to 1.  A later frame in that state advances the virtual time at the unchanged
  speed; while the magnitude of the new position is below 0.99 nothing else changes, and
  when it is at least 0.99 (and the position did not change sign within the frame) the
  frame stores the new position, with its sign, as the start position of the deceleration
  and moves on to decelerating.
\<close>

theorem wait_for_edge_sine:
  assumes "motionType cfg = ''sine''"
  shows "(isPlaying m \<and> \<not> isHeadingTowardZero cfg m \<longrightarrow>
            togglePlayPause cfg now m
              = m\<lparr>isPlaying := False, waitingForEdge := True, rampDirection := None,
                   speedMultiplier := 1\<rparr>)
       \<and> (waitingForEdge m \<and> \<not> isDecelerating m
            \<and> \<bar>wavePosition cfg (virtualTime m + frameDelta ts m * speedMultiplier m)\<bar> < 0.99 \<longrightarrow>
            calculateBallPosition cfg ts m
              = m\<lparr>lastTimestamp := Some ts,
                   virtualTime := virtualTime m + frameDelta ts m * speedMultiplier m,
                   ballPosition :=
                     wavePosition cfg (virtualTime m + frameDelta ts m * speedMultiplier m)\<rparr>)
       \<and> (waitingForEdge m
            \<and> \<bar>wavePosition cfg (virtualTime m + frameDelta ts m * speedMultiplier m)\<bar> \<ge> 0.99
            \<and> \<not> crossedZero (ballPosition m)
                  (wavePosition cfg (virtualTime m + frameDelta ts m * speedMultiplier m)) \<longrightarrow>
            calculateBallPosition cfg ts m
              = m\<lparr>lastTimestamp := Some ts,
                   virtualTime := virtualTime m + frameDelta ts m * speedMultiplier m,
                   ballPosition :=
                     wavePosition cfg (virtualTime m + frameDelta ts m * speedMultiplier m),
                   waitingForEdge := False, isDecelerating := True,
                   decelStartPosition :=
                     wavePosition cfg (virtualTime m + frameDelta ts m * speedMultiplier m)\<rparr>)"
  using pause_toward_edge [of m cfg now] waiting_frame_before_edge [OF assms, of m ts]
    waiting_frame_at_edge [OF assms, of m ts]
  by blast

theorem wait_for_edge_sine_witness:
  "togglePlayPause defaultSettings 5 (togglePlayPause defaultSettings 0 initialMotion)
     = (togglePlayPause defaultSettings 0 initialMotion)
         \<lparr>isPlaying := False, waitingForEdge := True, rampDirection := None,
            speedMultiplier := 1\<rparr>
   \<and> calculateBallPosition defaultSettings 16
       (togglePlayPause defaultSettings 5 (togglePlayPause defaultSettings 0 initialMotion))
     = (togglePlayPause defaultSettings 5 (togglePlayPause defaultSettings 0 initialMotion))
         \<lparr>lastTimestamp := Some 16, virtualTime := 0, ballPosition := 0\<rparr>
   \<and> calculateBallPosition defaultSettings 1025 waitingTowardLeftEdge
     = waitingTowardLeftEdge
         \<lparr>lastTimestamp := Some 1025, virtualTime := 1125, ballPosition := - 1,
            waitingForEdge := False, isDecelerating := True, decelStartPosition := - 1\<rparr>"
proof -
  let ?m = "togglePlayPause defaultSettings 0 initialMotion"
  let ?p = "togglePlayPause defaultSettings 5 ?m"
  let ?w = waitingTowardLeftEdge
  have sine: "motionType defaultSettings = ''sine''" by (simp add: defaultSettings_def)
  have pre1: "isPlaying ?m \<and> \<not> isHeadingTowardZero defaultSettings ?m"
    by (simp add: togglePlayPause_def initialMotion_def isHeadingTowardZero_def Let_def)
  have p: "?p = initialMotion\<lparr>rampStartTime := Some 0, waitingForEdge := True, speedMultiplier := 1\<rparr>"
    by (simp add: togglePlayPause_def initialMotion_def isHeadingTowardZero_def Let_def)
  have vt2: "virtualTime ?p + frameDelta 16 ?p * speedMultiplier ?p = 0"
    unfolding p by (simp add: initialMotion_def frameDelta_def)
  have vt3: "virtualTime ?w + frameDelta 1025 ?w * speedMultiplier ?w = 1125"
    by (simp add: waitingTowardLeftEdge_def frameDelta_def)
  have w0: "wavePosition defaultSettings 0 = 0" by (simp add: wavePosition_default)
  have w3: "wavePosition defaultSettings 1125 = - 1"
    using sin_1125 by (simp add: wavePosition_default)
  have pre2: "waitingForEdge ?p \<and> \<not> isDecelerating ?p
      \<and> \<bar>wavePosition defaultSettings (virtualTime ?p + frameDelta 16 ?p * speedMultiplier ?p)\<bar> < 0.99"
    unfolding vt2 w0 unfolding p by (simp add: initialMotion_def)
  have pre3: "waitingForEdge ?w
      \<and> \<bar>wavePosition defaultSettings (virtualTime ?w + frameDelta 1025 ?w * speedMultiplier ?w)\<bar> \<ge> 0.99
      \<and> \<not> crossedZero (ballPosition ?w)
            (wavePosition defaultSettings (virtualTime ?w + frameDelta 1025 ?w * speedMultiplier ?w))"
    unfolding vt3 w3 using sin_1100
    by (simp add: crossedZero_def waitingTowardLeftEdge_def)
  note inst = wait_for_edge_sine [OF sine]
  show ?thesis
    using inst [of ?m 5, THEN conjunct1, THEN mp, OF pre1]
      inst [of ?p _ 16, THEN conjunct2, THEN conjunct1, THEN mp, OF pre2]
      inst [of ?w _ 1025, THEN conjunct2, THEN conjunct2, THEN mp, OF pre3]
    unfolding vt2 vt3 w0 w3 by (intro conjI)
qed

subsection \<open>Deceleration ends at the centre\<close>

lemma wave_default_shift:
  "wavePosition defaultSettings (1500 * of_int k + u) = wavePosition defaultSettings u"
proof -
  have "(1500 * of_int k + u) / 1500 * pi * 2 = u / 1500 * pi * 2 + (2 * pi) * of_int k"
    by (simp add: field_simps)
  then show ?thesis by (simp only: wavePosition_default sin_add sin_int_2pin cos_int_2pin)
qed

lemma wave_default_first_half:
  assumes "0 < u" and "u < 750"
  shows "0 < wavePosition defaultSettings u"
  unfolding wavePosition_default using assms by (intro sin_gt_zero) (simp_all add: field_simps)

lemma wave_default_second_half:
  assumes "750 \<le> u" and "u < 1500"
  shows "wavePosition defaultSettings u \<le> 0"
  unfolding wavePosition_default using assms by (intro sin_le_zero) (simp_all add: field_simps)

lemma wave_default_start:
  assumes "0 \<le> u" and "u < 125"
  shows "wavePosition defaultSettings u < 1 / 2"
proof -
  have p0: "0 \<le> u / 1500 * pi * 2" using assms(1) by simp
  have p1: "u / 1500 * pi * 2 < pi / 6" using assms(2) by (simp add: field_simps)
  have "sin (u / 1500 * pi * 2) < sin (pi / 6)"
    using p0 p1 pi_gt_zero by (subst sin_mono_less_eq) linarith+
  then show ?thesis by (simp add: wavePosition_default sin_30)
qed

lemma wave_default_le_1: "wavePosition defaultSettings u \<le> 1"
  by (simp add: wavePosition_default)


lemma wave_default_in_period:
  "wavePosition defaultSettings vt = wavePosition defaultSettings (vt - 1500 * of_int k)"
  using wave_default_shift [of k "vt - 1500 * of_int k"] by simp

lemma decel_speed_bounds:
  assumes "0 < p" and "p \<le> 1"
  shows "0.08 \<le> max 0.08 (sqrt (\<bar>p\<bar> / \<bar>1 / 2 :: real\<bar>))"
    and "max 0.08 (sqrt (\<bar>p\<bar> / \<bar>1 / 2 :: real\<bar>)) \<le> 2"
proof -
  show "0.08 \<le> max 0.08 (sqrt (\<bar>p\<bar> / \<bar>1 / 2 :: real\<bar>))" by simp
  have "\<bar>p\<bar> / \<bar>1 / 2 :: real\<bar> \<le> 4" using assms by simp
  then have "sqrt (\<bar>p\<bar> / \<bar>1 / 2 :: real\<bar>) \<le> sqrt 4" by (rule real_sqrt_le_mono)
  also have "sqrt 4 = (2 :: real)" using real_sqrt_abs [of 2] by simp
  finally show "max 0.08 (sqrt (\<bar>p\<bar> / \<bar>1 / 2 :: real\<bar>)) \<le> 2" by simp
qed

lemma decel_half_step:
  fixes k :: int
  assumes d: "isDecelerating m" and w: "\<not> waitingForEdge m"
    and s: "decelStartPosition m = 1 / 2" and l: "lastTimestamp m = Some t"
    and c: "ballPosition m = wavePosition defaultSettings (virtualTime m)"
    and lo: "1500 * of_int k < virtualTime m" and hi: "virtualTime m < 1500 * of_int k + 750"
  shows "0 < ballPosition m
     \<and> ((crossedZero (ballPosition m)
             (wavePosition defaultSettings (virtualTime (deceleratingStep 16 m)))
          \<and> \<not> isDecelerating (fixedDeltaTick defaultSettings 16 m)
          \<and> \<not> waitingForEdge (fixedDeltaTick defaultSettings 16 m)
          \<and> rampDirection (fixedDeltaTick defaultSettings 16 m) = None
          \<and> virtualTime (fixedDeltaTick defaultSettings 16 m) = 0
          \<and> speedMultiplier (fixedDeltaTick defaultSettings 16 m) = 0
          \<and> ballPosition (fixedDeltaTick defaultSettings 16 m) = 0)
       \<or> (isDecelerating (fixedDeltaTick defaultSettings 16 m)
          \<and> \<not> waitingForEdge (fixedDeltaTick defaultSettings 16 m)
          \<and> decelStartPosition (fixedDeltaTick defaultSettings 16 m) = 1 / 2
          \<and> lastTimestamp (fixedDeltaTick defaultSettings 16 m) = Some (t + 16)
          \<and> ballPosition (fixedDeltaTick defaultSettings 16 m)
              = wavePosition defaultSettings (virtualTime (fixedDeltaTick defaultSettings 16 m))
          \<and> virtualTime m + 1.28 \<le> virtualTime (fixedDeltaTick defaultSettings 16 m)
          \<and> virtualTime (fixedDeltaTick defaultSettings 16 m) < 1500 * of_int k + 750))"
proof -
  define p where "p = ballPosition m"
  define sp where "sp = max 0.08 (sqrt (\<bar>p\<bar> / \<bar>1 / 2 :: real\<bar>))"
  define vt' where "vt' = virtualTime m + 16 * sp"
  have p_pos: "0 < p"
    unfolding p_def c wave_default_in_period [of "virtualTime m" k]
    using lo hi by (intro wave_default_first_half) simp_all
  have p_le: "p \<le> 1" unfolding p_def c by (rule wave_default_le_1)
  have sp_lo: "0.08 \<le> sp" and sp_hi: "sp \<le> 2"
    unfolding sp_def using decel_speed_bounds [OF p_pos p_le] by simp_all
  have vt'_lo: "virtualTime m + 1.28 \<le> vt'" and vt'_hi: "vt' \<le> virtualTime m + 32"
    unfolding vt'_def using sp_lo sp_hi by simp_all
  have start: "\<bar>decelStartPosition m\<bar> > 0.01" using s by simp
  have delta: "frameDelta (t + 16) m = 16" using l by (simp add: frameDelta_def)
  have stepped: "virtualTime (deceleratingStep 16 m) = vt'"
    by (simp add: deceleratingStep_def Let_def s p_def sp_def vt'_def)
  have tick: "fixedDeltaTick defaultSettings 16 m
      = finishFrame defaultSettings p
          (m\<lparr>lastTimestamp := Some (t + 16), speedMultiplier := sp, virtualTime := vt'\<rparr>)"
    unfolding fixedDeltaTick_def l numOrZero_def option.case
      decel_large_start_frame [OF d w start] delta
    by (simp add: p_def sp_def vt'_def s)
  show ?thesis
  proof (cases "vt' < 1500 * of_int k + 750")
    case True
    have "0 < wavePosition defaultSettings vt'"
      unfolding wave_default_in_period [of vt' k]
      using True vt'_lo lo by (intro wave_default_first_half) simp_all
    then have "\<not> crossedZero p (wavePosition defaultSettings vt')"
      using p_pos by (simp add: crossedZero_def)
    then have "fixedDeltaTick defaultSettings 16 m
        = m\<lparr>lastTimestamp := Some (t + 16), speedMultiplier := sp, virtualTime := vt',
             ballPosition := wavePosition defaultSettings vt'\<rparr>"
      unfolding tick by (simp add: finishFrame_def Let_def)
    then show ?thesis using d w s True vt'_lo p_pos by (simp add: p_def)
  next
    case False
    have "wavePosition defaultSettings vt' \<le> 0"
      unfolding wave_default_in_period [of vt' k]
      using False vt'_hi hi by (intro wave_default_second_half) simp_all
    then have cross: "crossedZero p (wavePosition defaultSettings vt')"
      using p_pos by (simp add: crossedZero_def)
    then have "fixedDeltaTick defaultSettings 16 m
        = m\<lparr>lastTimestamp := Some (t + 16), speedMultiplier := 0, virtualTime := 0,
             ballPosition := 0, isDecelerating := False, waitingForEdge := False,
             rampDirection := None\<rparr>"
      unfolding tick using d by (simp add: finishFrame_def Let_def)
    then show ?thesis using cross p_pos by (simp add: p_def stepped)
  qed
qed

lemma decel_half_run:
  fixes k :: int
  assumes "isDecelerating m" and "\<not> waitingForEdge m"
    and "decelStartPosition m = 1 / 2" and "lastTimestamp m = Some t"
    and "ballPosition m = wavePosition defaultSettings (virtualTime m)"
    and "1500 * of_int k < virtualTime m" and "virtualTime m < 1500 * of_int k + 750"
    and "1500 * of_int k + 750 - virtualTime m \<le> 1.28 * real n"
  shows "\<exists>j. j \<le> n
       \<and> (\<forall>i\<le>j. phaseState (repeatTick defaultSettings 16 i m) = Decelerating
                \<and> 0 < ballPosition (repeatTick defaultSettings 16 i m))
       \<and> crossedZero (ballPosition (repeatTick defaultSettings 16 j m))
           (wavePosition defaultSettings
              (virtualTime (deceleratingStep 16 (repeatTick defaultSettings 16 j m))))
       \<and> \<not> isDecelerating (repeatTick defaultSettings 16 (Suc j) m)
       \<and> \<not> waitingForEdge (repeatTick defaultSettings 16 (Suc j) m)
       \<and> rampDirection (repeatTick defaultSettings 16 (Suc j) m) = None
       \<and> virtualTime (repeatTick defaultSettings 16 (Suc j) m) = 0
       \<and> speedMultiplier (repeatTick defaultSettings 16 (Suc j) m) = 0
       \<and> ballPosition (repeatTick defaultSettings 16 (Suc j) m) = 0"
  using assms
proof (induction n arbitrary: m t)
  case 0
  then show ?case by simp
next
  case (Suc n)
  let ?m' = "fixedDeltaTick defaultSettings 16 m"
  have here: "phaseState m = Decelerating"
    using Suc.prems(1,2) by (simp add: phaseState_def)
  note step = decel_half_step [OF Suc.prems(1-7)]
  have pos: "0 < ballPosition m" using step by blast
  show ?case
  proof (cases "isDecelerating ?m'")
    case False
    then have fin: "crossedZero (ballPosition m)
             (wavePosition defaultSettings (virtualTime (deceleratingStep 16 m)))"
        "\<not> isDecelerating ?m'" "\<not> waitingForEdge ?m'" "rampDirection ?m' = None"
        "virtualTime ?m' = 0" "speedMultiplier ?m' = 0" "ballPosition ?m' = 0"
      using step by blast+
    show ?thesis using fin here pos by (intro exI [of _ 0]) simp
  next
    case True
    then have inv: "isDecelerating ?m'" "\<not> waitingForEdge ?m'" "decelStartPosition ?m' = 1 / 2"
      "lastTimestamp ?m' = Some (t + 16)"
      "ballPosition ?m' = wavePosition defaultSettings (virtualTime ?m')"
      "virtualTime m + 1.28 \<le> virtualTime ?m'" "virtualTime ?m' < 1500 * of_int k + 750"
      using step by blast+
    have lo': "1500 * of_int k < virtualTime ?m'" using inv(6) Suc.prems(6) by simp
    have rem: "1500 * of_int k + 750 - virtualTime ?m' \<le> 1.28 * real n"
      using inv(6) Suc.prems(8) by (simp add: algebra_simps)
    obtain j where j: "j \<le> n"
        "\<forall>i\<le>j. phaseState (repeatTick defaultSettings 16 i ?m') = Decelerating
                \<and> 0 < ballPosition (repeatTick defaultSettings 16 i ?m')"
        "crossedZero (ballPosition (repeatTick defaultSettings 16 j ?m'))
           (wavePosition defaultSettings
              (virtualTime (deceleratingStep 16 (repeatTick defaultSettings 16 j ?m'))))"
        "\<not> isDecelerating (repeatTick defaultSettings 16 (Suc j) ?m')"
        "\<not> waitingForEdge (repeatTick defaultSettings 16 (Suc j) ?m')"
        "rampDirection (repeatTick defaultSettings 16 (Suc j) ?m') = None"
        "virtualTime (repeatTick defaultSettings 16 (Suc j) ?m') = 0"
        "speedMultiplier (repeatTick defaultSettings 16 (Suc j) ?m') = 0"
        "ballPosition (repeatTick defaultSettings 16 (Suc j) ?m') = 0"
      using Suc.IH [OF inv(1-5) lo' inv(7) rem] by blast
    have before: "\<forall>i\<le>Suc j. phaseState (repeatTick defaultSettings 16 i m) = Decelerating
                \<and> 0 < ballPosition (repeatTick defaultSettings 16 i m)"
    proof (intro allI impI)
      fix i assume "i \<le> Suc j"
      then show "phaseState (repeatTick defaultSettings 16 i m) = Decelerating
                \<and> 0 < ballPosition (repeatTick defaultSettings 16 i m)"
        using here pos j(2) by (cases i) simp_all
    qed
    show ?thesis
      using j(1,3-9) before by (intro exI [of _ "Suc j"]) simp
  qed
qed

lemma half_position_in_period:
  assumes "wavePosition defaultSettings vt = 1 / 2"
  shows "1500 * of_int \<lfloor>vt / 1500\<rfloor> + 125 \<le> vt \<and> vt < 1500 * of_int \<lfloor>vt / 1500\<rfloor> + 750"
proof -
  define u where "u = vt - 1500 * of_int \<lfloor>vt / 1500\<rfloor>"
  have range: "0 \<le> u" "u < 1500"
    using floor_divide_lower [of 1500 vt] floor_divide_upper [of 1500 vt]
    by (simp_all add: u_def algebra_simps)
  have half: "wavePosition defaultSettings u = 1 / 2"
    using assms wave_default_in_period [of vt "\<lfloor>vt / 1500\<rfloor>"] by (simp add: u_def)
  have "\<not> 750 \<le> u" using wave_default_second_half [of u] range(2) half by auto
  moreover have "\<not> u < 125" using wave_default_start [of u] range(1) half by auto
  ultimately show ?thesis by (simp add: u_def)
qed

text \<open>
  Claim C1.  With the default settings (sine motion, 40 cycles per minute), take any
  decelerating state whose captured start position and position are both 1/2, the
  position being the waveform's value at the virtual time.  Frames at a fixed distance of
  16 ms then end the episode after at least one and at most 500 frames.  Before each of
  these \<open>n\<close> frames the state is decelerating with a positive position, so that no
  earlier frame crosses zero.  Frame \<open>n\<close> is the one on which the position crosses zero:
  the position before it is positive and the waveform at the virtual time the decelerating
  branch advances to (the position computed at lines 3179-3195) is zero or negative, which
  is the test of line 3199.  That single frame clears the decelerating, wait-for-edge and
  ramp flags and sets the virtual time, the speed multiplier and the position to 0, which
  is the idle state.
\<close>

theorem decel_from_half_completes:
  assumes "isDecelerating m" and "\<not> waitingForEdge m"
    and "decelStartPosition m = 1 / 2" and "ballPosition m = 1 / 2"
    and "wavePosition defaultSettings (virtualTime m) = ballPosition m"
    and "lastTimestamp m = Some t"
  shows "\<exists>n. 0 < n \<and> n \<le> 500
       \<and> (\<forall>i<n. phaseState (repeatTick defaultSettings 16 i m) = Decelerating)
       \<and> (\<forall>i<n. 0 < ballPosition (repeatTick defaultSettings 16 i m))
       \<and> (\<forall>i<n - 1. \<not> crossedZero (ballPosition (repeatTick defaultSettings 16 i m))
                        (ballPosition (repeatTick defaultSettings 16 (Suc i) m)))
       \<and> crossedZero (ballPosition (repeatTick defaultSettings 16 (n - 1) m))
           (wavePosition defaultSettings
              (virtualTime (deceleratingStep 16 (repeatTick defaultSettings 16 (n - 1) m))))
       \<and> phaseState (repeatTick defaultSettings 16 n m) = Idle
       \<and> \<not> isDecelerating (repeatTick defaultSettings 16 n m)
       \<and> \<not> waitingForEdge (repeatTick defaultSettings 16 n m)
       \<and> rampDirection (repeatTick defaultSettings 16 n m) = None
       \<and> virtualTime (repeatTick defaultSettings 16 n m) = 0
       \<and> speedMultiplier (repeatTick defaultSettings 16 n m) = 0
       \<and> ballPosition (repeatTick defaultSettings 16 n m) = 0"
proof -
  define k where "k = \<lfloor>virtualTime m / 1500\<rfloor>"
  have half: "wavePosition defaultSettings (virtualTime m) = 1 / 2" using assms(4,5) by simp
  have range: "1500 * of_int k + 125 \<le> virtualTime m" "virtualTime m < 1500 * of_int k + 750"
    using half_position_in_period [OF half] by (simp_all add: k_def)
  have lo: "1500 * of_int k < virtualTime m" using range(1) by simp
  have budget: "1500 * of_int k + 750 - virtualTime m \<le> 1.28 * real 489"
    using range(1) by simp
  obtain j where j: "j \<le> 489"
      "\<forall>i\<le>j. phaseState (repeatTick defaultSettings 16 i m) = Decelerating
                \<and> 0 < ballPosition (repeatTick defaultSettings 16 i m)"
      "crossedZero (ballPosition (repeatTick defaultSettings 16 j m))
           (wavePosition defaultSettings
              (virtualTime (deceleratingStep 16 (repeatTick defaultSettings 16 j m))))"
      "\<not> isDecelerating (repeatTick defaultSettings 16 (Suc j) m)"
      "\<not> waitingForEdge (repeatTick defaultSettings 16 (Suc j) m)"
      "rampDirection (repeatTick defaultSettings 16 (Suc j) m) = None"
      "virtualTime (repeatTick defaultSettings 16 (Suc j) m) = 0"
      "speedMultiplier (repeatTick defaultSettings 16 (Suc j) m) = 0"
      "ballPosition (repeatTick defaultSettings 16 (Suc j) m) = 0"
    using decel_half_run [OF assms(1,2,3,6) assms(5) [symmetric] lo range(2) budget] by blast
  have idle: "phaseState (repeatTick defaultSettings 16 (Suc j) m) = Idle"
    using j(4,5,6,8) by (simp add: phaseState_def)
  have bound: "0 < Suc j \<and> Suc j \<le> 500" using j(1) by simp
  have phases: "\<forall>i<Suc j. phaseState (repeatTick defaultSettings 16 i m) = Decelerating"
    using j(2) by (simp add: less_Suc_eq_le)
  have positive: "\<forall>i<Suc j. 0 < ballPosition (repeatTick defaultSettings 16 i m)"
    using j(2) by (simp add: less_Suc_eq_le)
  have earlier: "\<forall>i<Suc j - 1. \<not> crossedZero (ballPosition (repeatTick defaultSettings 16 i m))
                        (ballPosition (repeatTick defaultSettings 16 (Suc i) m))"
  proof (intro allI impI)
    fix i assume "i < Suc j - 1"
    then have "i \<le> j" "Suc i \<le> j" by simp_all
    then have "0 < ballPosition (repeatTick defaultSettings 16 i m)"
      "0 < ballPosition (repeatTick defaultSettings 16 (Suc i) m)"
      using j(2) by blast+
    then show "\<not> crossedZero (ballPosition (repeatTick defaultSettings 16 i m))
                        (ballPosition (repeatTick defaultSettings 16 (Suc i) m))"
      by (simp add: crossedZero_def)
  qed
  have crossing: "crossedZero (ballPosition (repeatTick defaultSettings 16 (Suc j - 1) m))
           (wavePosition defaultSettings
              (virtualTime (deceleratingStep 16 (repeatTick defaultSettings 16 (Suc j - 1) m))))"
    using j(3) by simp
  show ?thesis
    using bound phases positive earlier crossing idle j(4-9)
    by (intro exI [of _ "Suc j"] conjI) blast+
qed

lemma wave_default_625: "wavePosition defaultSettings 625 = 1 / 2"
proof -
  have "625 / 1500 * pi * 2 = pi - pi / 6" by simp
  then have "sin (625 / 1500 * pi * 2) = sin (pi / 6)" by (simp only: sin_pi_minus)
  then show ?thesis by (simp only: wavePosition_default sin_30)
qed

theorem decel_from_half_completes_witness:
  "\<exists>n. 0 < n \<and> n \<le> 500
       \<and> crossedZero (ballPosition (repeatTick defaultSettings 16 (n - 1) deceleratingFromHalf))
           (wavePosition defaultSettings
              (virtualTime (deceleratingStep 16
                 (repeatTick defaultSettings 16 (n - 1) deceleratingFromHalf))))
       \<and> phaseState (repeatTick defaultSettings 16 n deceleratingFromHalf) = Idle
       \<and> virtualTime (repeatTick defaultSettings 16 n deceleratingFromHalf) = 0
       \<and> speedMultiplier (repeatTick defaultSettings 16 n deceleratingFromHalf) = 0
       \<and> ballPosition (repeatTick defaultSettings 16 n deceleratingFromHalf) = 0"
proof -
  have h: "isDecelerating deceleratingFromHalf" "\<not> waitingForEdge deceleratingFromHalf"
    "decelStartPosition deceleratingFromHalf = 1 / 2" "ballPosition deceleratingFromHalf = 1 / 2"
    "lastTimestamp deceleratingFromHalf = Some 1000"
    by (simp_all add: deceleratingFromHalf_def)
  have c: "wavePosition defaultSettings (virtualTime deceleratingFromHalf)
      = ballPosition deceleratingFromHalf"
    using wave_default_625 by (simp add: deceleratingFromHalf_def)
  show ?thesis
    using decel_from_half_completes [OF h(1) h(2) h(3) h(4) c h(5)] by blast
qed

subsection \<open>The speed multiplier after the edge threshold\<close>

text \<open>
  The decelerating branch has a floor and no ceiling: whenever the position is farther
  from the centre than the captured start position, the speed it assigns exceeds 1.
\<close>

lemma decel_speed_above_one:
  assumes "\<bar>decelStartPosition m\<bar> > 0.01" and "\<bar>decelStartPosition m\<bar> < \<bar>ballPosition m\<bar>"
  shows "1 < speedMultiplier (deceleratingStep deltaTime m)"
proof -
  have "1 < \<bar>ballPosition m\<bar> / \<bar>decelStartPosition m\<bar>" using assms by simp
  then have "sqrt 1 < sqrt (\<bar>ballPosition m\<bar> / \<bar>decelStartPosition m\<bar>)"
    by (rule real_sqrt_less_mono)
  then have "1 < max 0.08 (sqrt (\<bar>ballPosition m\<bar> / \<bar>decelStartPosition m\<bar>))"
    by (simp only: real_sqrt_one less_max_iff_disj) simp
  then show ?thesis using assms by (simp add: deceleratingStep_def Let_def)
qed

lemma play_then_late_frame:
  "animate defaultSettings 800 (togglePlayPause defaultSettings 0 initialMotion) = steadyAt 800 0"
  by (simp add: animate_def togglePlayPause_def initialMotion_def calculateBallPosition_def
      rampUpStep_def finishFrame_def Let_def numOrZero_def RAMP_DURATION_def
      easeInOutCubic_def steadyAt_def wavePosition_default)

lemma steady_frame_50:
  "animate defaultSettings (t + 50) (steadyAt t vt) = steadyAt (t + 50) (vt + 50)"
  by (simp add: animate_def calculateBallPosition_def normalPlaybackStep_def finishFrame_def
      Let_def numOrZero_def steadyAt_def)

lemma six_steady_frames:
  "foldl (applyEvent defaultSettings) (steadyAt 800 0)
     [Frame 850, Frame 900, Frame 950, Frame 1000, Frame 1050, Frame 1100] = steadyAt 1100 300"
  using steady_frame_50 [of 800 0] steady_frame_50 [of 850 50] steady_frame_50 [of 900 100]
    steady_frame_50 [of 950 150] steady_frame_50 [of 1000 200] steady_frame_50 [of 1050 250]
  by simp


lemma motionType_default: "motionType defaultSettings = ''sine''"
  by (simp add: defaultSettings_def)

lemma phase_300: "0 < sin (300 / 1500 * pi * 2)" "0 < cos (300 / 1500 * pi * 2)"
proof -
  have "(0 :: real) < 300 / 1500 * pi * 2" and "300 / 1500 * pi * 2 < pi / 2" by simp_all
  then show "0 < sin (300 / 1500 * pi * 2)" "0 < cos (300 / 1500 * pi * 2)"
    by (rule sin_gt_zero2, rule cos_gt_zero)
qed

lemma pause_at_300: "togglePlayPause defaultSettings 1120 (steadyAt 1100 300) = waitingAt300"
  using phase_300
  by (simp add: togglePlayPause_def Let_def isHeadingTowardZero_def getVelocityDirection_def
      steadyAt_def waitingAt300_def wavePosition_default period_default motionType_default)

lemma wave_350: "wavePosition defaultSettings 350 = cos (pi / 30)"
  using sin_350 by (simp add: wavePosition_default)

lemma wave_375: "wavePosition defaultSettings 375 = 1"
  by (simp add: wavePosition_default)

lemma frame_reaches_edge: "animate defaultSettings 1150 waitingAt300 = deceleratingAt 1150 350 1"
proof -
  have w: "waitingForEdge waitingAt300" by (simp add: waitingAt300_def steadyAt_def)
  have dt: "frameDelta 1150 waitingAt300 = 50"
    by (simp add: frameDelta_def waitingAt300_def steadyAt_def)
  have edge: "\<bar>cos (pi / 30)\<bar> \<ge> 0.99" using cos_pi_30(1) by simp
  have step: "waitingForEdgeStep defaultSettings 50 (waitingAt300\<lparr>lastTimestamp := Some 1150\<rparr>)
      = waitingAt300\<lparr>lastTimestamp := Some 1150, virtualTime := 350,
          waitingForEdge := False, isDecelerating := True, decelStartPosition := cos (pi / 30)\<rparr>"
    unfolding waitingForEdgeStep_def Let_def period_default
    using edge sin_350 by (simp add: waitingAt300_def steadyAt_def)
  have pos: "0 < ballPosition waitingAt300" "0 < cos (pi / 30)"
    using phase_300(1) cos_pi_30(1) by (simp_all add: waitingAt300_def steadyAt_def wavePosition_default)
  have "calculateBallPosition defaultSettings 1150 waitingAt300 = deceleratingAt 1150 350 1"
    unfolding calc_waiting [OF w] dt step finishFrame_def Let_def
    using pos by (simp add: wave_350 crossedZero_def deceleratingAt_def waitingAt300_def steadyAt_def)
  then show ?thesis using w by (simp add: animate_def)
qed

lemma frame_to_peak:
  "animate defaultSettings 1175 (deceleratingAt 1150 350 1) = deceleratingAt 1175 375 1"
proof -
  let ?m = "deceleratingAt 1150 350 1"
  have d: "isDecelerating ?m" and w: "\<not> waitingForEdge ?m" by (simp_all add: deceleratingAt_def)
  have c: "0.99 \<le> cos (pi / 30)" using cos_pi_30(1) by simp
  have start: "\<bar>decelStartPosition ?m\<bar> > 0.01" using c by (simp add: deceleratingAt_def)
  have dt: "frameDelta 1175 ?m = 25" by (simp add: frameDelta_def deceleratingAt_def)
  have sp: "max 0.08 (sqrt (\<bar>ballPosition ?m\<bar> / \<bar>decelStartPosition ?m\<bar>)) = 1"
    using c by (simp add: deceleratingAt_def wave_350)
  have "calculateBallPosition defaultSettings 1175 ?m = deceleratingAt 1175 375 1"
    unfolding decel_large_start_frame [OF d w start] dt sp finishFrame_def Let_def
    using c by (simp add: deceleratingAt_def wave_350 wave_375 crossedZero_def)
  then show ?thesis using d by (simp add: animate_def)
qed


lemma speed_past_peak:
  "1 < max 0.08 (sqrt (1 / cos (pi / 30)))" "max 0.08 (sqrt (1 / cos (pi / 30))) \<le> 2"
proof -
  have c: "0.99 \<le> cos (pi / 30)" "cos (pi / 30) < 1" using cos_pi_30 by simp_all
  have "1 < 1 / cos (pi / 30)" using c by simp
  then have "sqrt 1 < sqrt (1 / cos (pi / 30))" by (rule real_sqrt_less_mono)
  then have "1 < sqrt (1 / cos (pi / 30))" by (simp only: real_sqrt_one)
  then show "1 < max 0.08 (sqrt (1 / cos (pi / 30)))" by (simp only: less_max_iff_disj) simp
  have "1 / cos (pi / 30) \<le> 4" using c by (simp add: field_simps)
  then have "sqrt (1 / cos (pi / 30)) \<le> sqrt 4" by (rule real_sqrt_le_mono)
  also have "sqrt 4 = (2 :: real)" using real_sqrt_abs [of 2] by simp
  finally show "max 0.08 (sqrt (1 / cos (pi / 30))) \<le> 2" by simp
qed

lemma frame_past_peak:
  "animate defaultSettings 1176 (deceleratingAt 1175 375 1)
     = deceleratingAt 1176 (375 + max 0.08 (sqrt (1 / cos (pi / 30))))
         (max 0.08 (sqrt (1 / cos (pi / 30))))"
proof -
  let ?m = "deceleratingAt 1175 375 1"
  let ?sp = "max 0.08 (sqrt (1 / cos (pi / 30)))"
  have d: "isDecelerating ?m" and w: "\<not> waitingForEdge ?m" by (simp_all add: deceleratingAt_def)
  have c: "0.99 \<le> cos (pi / 30)" using cos_pi_30(1) by simp
  have start: "\<bar>decelStartPosition ?m\<bar> > 0.01" using c by (simp add: deceleratingAt_def)
  have dt: "frameDelta 1176 ?m = 1" by (simp add: frameDelta_def deceleratingAt_def)
  have sp: "max 0.08 (sqrt (\<bar>ballPosition ?m\<bar> / \<bar>decelStartPosition ?m\<bar>)) = ?sp"
    using c by (simp add: deceleratingAt_def wave_375)
  have "0 < wavePosition defaultSettings (375 + ?sp)"
    using speed_past_peak by (intro wave_default_first_half) simp_all
  then have no: "\<not> crossedZero 1 (wavePosition defaultSettings (375 + ?sp))"
    by (simp add: crossedZero_def)
  have vt: "virtualTime ?m + 1 * ?sp = 375 + ?sp" by (simp add: deceleratingAt_def)
  have "calculateBallPosition defaultSettings 1176 ?m = deceleratingAt 1176 (375 + ?sp) ?sp"
    unfolding decel_large_start_frame [OF d w start] dt sp vt finishFrame_def Let_def
    using no by (simp add: deceleratingAt_def wave_375)
  then show ?thesis using d by (simp add: animate_def)
qed

text \<open>
  Claim C3, evaluated on the code.  Play is pressed at clock value 0 and the first frame
  arrives 800 ms later, so the ramp is complete; six frames 50 ms apart bring the virtual
  time to 300; pause is pressed while the ball heads toward the right edge; the next
  frame reaches the 0.99 threshold and captures cos (pi / 30) as start position; the next
  one reaches the peak, position 1; and on the frame after that the decelerating branch
  sets the speed multiplier to sqrt (1 / cos (pi / 30)), which is greater than 1.
\<close>

theorem speed_exceeds_one_after_edge:
  "speedMultiplier (runEvents defaultSettings
      [Press 0, Frame 800, Frame 850, Frame 900, Frame 950, Frame 1000, Frame 1050, Frame 1100,
       Press 1120, Frame 1150, Frame 1175, Frame 1176] initialMotion)
     = max 0.08 (sqrt (1 / cos (pi / 30)))
   \<and> 1 < speedMultiplier (runEvents defaultSettings
      [Press 0, Frame 800, Frame 850, Frame 900, Frame 950, Frame 1000, Frame 1050, Frame 1100,
       Press 1120, Frame 1150, Frame 1175, Frame 1176] initialMotion)"
proof -
  have "runEvents defaultSettings
      [Press 0, Frame 800, Frame 850, Frame 900, Frame 950, Frame 1000, Frame 1050, Frame 1100,
       Press 1120, Frame 1150, Frame 1175, Frame 1176] initialMotion
     = deceleratingAt 1176 (375 + max 0.08 (sqrt (1 / cos (pi / 30))))
         (max 0.08 (sqrt (1 / cos (pi / 30))))"
    using steady_frame_50 [of 800 0] steady_frame_50 [of 850 50] steady_frame_50 [of 900 100]
      steady_frame_50 [of 950 150] steady_frame_50 [of 1000 200] steady_frame_50 [of 1050 250]
    by (simp add: runEvents_def play_then_late_frame pause_at_300 frame_reaches_edge
        frame_to_peak frame_past_peak)
  then have "speedMultiplier (runEvents defaultSettings
      [Press 0, Frame 800, Frame 850, Frame 900, Frame 950, Frame 1000, Frame 1050, Frame 1100,
       Press 1120, Frame 1150, Frame 1175, Frame 1176] initialMotion)
     = max 0.08 (sqrt (1 / cos (pi / 30)))"
    by (simp only: deceleratingAt_def motion.simps)
  then show ?thesis using speed_past_peak(1) by (simp only: simp_thms)
qed

subsection \<open>Music rate and offset\<close>

text \<open>
  A source node is only created from a loaded buffer, and the two are cleared together:
  every writer of the music variables keeps a buffer wherever there is a source.
\<close>

lemma music_source_has_buffer:
  assumes "musicSource mu \<noteq> None \<longrightarrow> musicBuffer mu \<noteq> None"
  shows "musicSource (startMusicPlayback hasContext speed mu) \<noteq> None
           \<longrightarrow> musicBuffer (startMusicPlayback hasContext speed mu) \<noteq> None"
    and "musicSource (stopMusicPlayback mu) \<noteq> None \<longrightarrow> musicBuffer (stopMusicPlayback mu) \<noteq> None"
    and "musicSource (unloadMusicTrack mu) \<noteq> None \<longrightarrow> musicBuffer (unloadMusicTrack mu) \<noteq> None"
    and "musicSource (musicBufferDecoded duration mu) \<noteq> None
           \<longrightarrow> musicBuffer (musicBufferDecoded duration mu) \<noteq> None"
    and "musicSource (updateMusicPlaybackRate currentTime rate mu) \<noteq> None
           \<longrightarrow> musicBuffer (updateMusicPlaybackRate currentTime rate mu) \<noteq> None"
  using assms
  by (auto simp add: startMusicPlayback_def stopMusicPlayback_def unloadMusicTrack_def
      musicBufferDecoded_def updateMusicPlaybackRate_def Let_def split: option.splits)

lemma updateMusicPlaybackRate_playing:
  assumes "musicSource mu = Some playbackRate" and "musicIsPlaying mu"
    and "musicBuffer mu = Some duration"
  shows "updateMusicPlaybackRate currentTime rate mu
     = mu\<lparr>lastMusicUpdateTime := currentTime,
          musicPausedAt :=
            jsRem (musicPausedAt mu
                   + (if lastMusicUpdateTime mu \<noteq> 0 then currentTime - lastMusicUpdateTime mu else 0)
                     * playbackRate) duration,
          musicSource := Some rate\<rparr>"
  using assms by (simp add: updateMusicPlaybackRate_def Let_def)

lemma jsRem_is_modulo:
  assumes "0 < y" and "0 \<le> x"
  shows "\<exists>q :: int. 0 \<le> q \<and> jsRem x y = x - y * of_int q"
proof -
  have "0 \<le> x / y" using assms by simp
  then have "jsRem x y = x - y * of_int \<lfloor>x / y\<rfloor>" and "0 \<le> \<lfloor>x / y\<rfloor>"
    by (simp_all add: jsRem_def)
  then show ?thesis by blast
qed

text \<open>
  Claim C7.  On every frame while music is playing (a source node exists, the playing
  flag is set, and the buffer it was created from is loaded), the playback rate of the
  source is set to the speed multiplier that the frame has just computed, and the tracked
  offset becomes the remainder, by the buffer duration, of the old offset plus the audio
  time since the previous update times the rate that was in effect until now (the first
  update counts no time).  Nothing is read back from the audio engine.  For a positive
  duration and an offset sum that is not negative, that remainder is the sum reduced by a
  whole number of durations into the range from 0 up to the duration.
\<close>

theorem music_rate_and_offset:
  assumes "musicSource mu = Some playbackRate" and "musicIsPlaying mu"
    and "musicBuffer mu = Some duration"
  shows "calculateBallPositionAndSync cfg timestamp currentTime (m, mu)
     = (calculateBallPosition cfg timestamp m,
        mu\<lparr>lastMusicUpdateTime := currentTime,
           musicPausedAt :=
             jsRem (musicPausedAt mu
                    + (if lastMusicUpdateTime mu \<noteq> 0
                       then currentTime - lastMusicUpdateTime mu else 0) * playbackRate) duration,
           musicSource := Some (speedMultiplier (calculateBallPosition cfg timestamp m))\<rparr>)
   \<and> (0 < duration
        \<and> 0 \<le> musicPausedAt mu
              + (if lastMusicUpdateTime mu \<noteq> 0
                 then currentTime - lastMusicUpdateTime mu else 0) * playbackRate \<longrightarrow>
        0 \<le> musicPausedAt (snd (calculateBallPositionAndSync cfg timestamp currentTime (m, mu)))
        \<and> musicPausedAt (snd (calculateBallPositionAndSync cfg timestamp currentTime (m, mu)))
            < duration
        \<and> (\<exists>q :: int. 0 \<le> q
             \<and> musicPausedAt (snd (calculateBallPositionAndSync cfg timestamp currentTime (m, mu)))
               = musicPausedAt mu
                 + (if lastMusicUpdateTime mu \<noteq> 0
                    then currentTime - lastMusicUpdateTime mu else 0) * playbackRate
                 - duration * of_int q))"
proof -
  let ?x = "musicPausedAt mu
     + (if lastMusicUpdateTime mu \<noteq> 0 then currentTime - lastMusicUpdateTime mu else 0) * playbackRate"
  have eq: "calculateBallPositionAndSync cfg timestamp currentTime (m, mu)
     = (calculateBallPosition cfg timestamp m,
        mu\<lparr>lastMusicUpdateTime := currentTime, musicPausedAt := jsRem ?x duration,
           musicSource := Some (speedMultiplier (calculateBallPosition cfg timestamp m))\<rparr>)"
    by (simp add: calculateBallPositionAndSync_def Let_def
        updateMusicPlaybackRate_playing [OF assms])
  have off: "musicPausedAt (snd (calculateBallPositionAndSync cfg timestamp currentTime (m, mu)))
      = jsRem ?x duration"
    unfolding eq by simp
  have "0 \<le> jsRem ?x duration \<and> jsRem ?x duration < duration
      \<and> (\<exists>q :: int. 0 \<le> q \<and> jsRem ?x duration = ?x - duration * of_int q)"
    if "0 < duration" and "0 \<le> ?x"
    using jsRem_nonneg_range [OF that] jsRem_is_modulo [OF that] by simp
  then show ?thesis unfolding off using eq by blast
qed

theorem music_rate_and_offset_witness:
  "calculateBallPositionAndSync defaultSettings 1016 11 (deceleratingFromHalf, musicExample)
     = (calculateBallPosition defaultSettings 1016 deceleratingFromHalf,
        musicExample\<lparr>lastMusicUpdateTime := 11,
           musicPausedAt := jsRem (239 / 2 + (11 - 10) * 1) 120,
           musicSource :=
             Some (speedMultiplier (calculateBallPosition defaultSettings 1016 deceleratingFromHalf))\<rparr>)"
proof -
  have h: "musicSource musicExample = Some 1" "musicIsPlaying musicExample"
    "musicBuffer musicExample = Some 120"
    by (simp_all add: musicExample_def)
  have f: "musicPausedAt musicExample = 239 / 2" "lastMusicUpdateTime musicExample = 10"
    by (simp_all add: musicExample_def)
  show ?thesis
    using music_rate_and_offset [OF h, of defaultSettings 1016 11 deceleratingFromHalf,
        THEN conjunct1]
    unfolding f by simp
qed

subsection \<open>The reverb response handler\<close>

lemma copy_channels:
  assumes "1 \<le> len" and "int (length c0) = len" and "int (length c1) = len"
  shows "copyToChannel c1 1 (copyToChannel c0 0
           \<lparr>numberOfChannels = 2, bufferLength = len, bufferSampleRate = rate,
            channelData = replicate 2 (replicate (nat len) 0)\<rparr>)
       = \<lparr>numberOfChannels = 2, bufferLength = len, bufferSampleRate = rate,
          channelData = [c0, c1]\<rparr>"
proof -
  have n: "nat len = length c0" "nat len = length c1" using assms by simp_all
  have two: "replicate 2 (replicate (nat len) (0 :: real)) = [replicate (nat len) 0, replicate (nat len) 0]"
    by (simp add: numeral_2_eq_2)
  have same: "length c0 = length c1" using assms(2,3) by simp
  show ?thesis unfolding two by (simp add: copyToChannel_def n(1) same)
qed

lemma response_applied:
  assumes "audioContext s = Some ctx" and "reverbConvolver s = Some old"
    and "1 \<le> length' e" and "channels e = [c0, c1]"
    and "int (length c0) = length' e" and "int (length c1) = length' e"
  shows "reverbWorkerOnMessage e s
     = Inr (s\<lparr>reverbConvolver :=
               Some (Some \<lparr>numberOfChannels = 2, bufferLength = length' e,
                           bufferSampleRate = sampleRate e, channelData = [c0, c1]\<rparr>)\<rparr>)"
  using assms copy_channels [OF assms(3,5,6), of "sampleRate e"]
  by (simp add: reverbWorkerOnMessage_def createBuffer_def)


lemma wellFormed_channels:
  assumes "wellFormedResponse e"
  shows "channels e = [channels e ! 0, channels e ! 1]"
proof -
  have "length (channels e) = 2" using assms by (simp add: wellFormedResponse_def)
  then show ?thesis
    by (cases "channels e"; simp) (rename_tac a as, case_tac as; simp)
qed

lemma response_applied_wf:
  assumes "audioContext s \<noteq> None" and "reverbConvolver s \<noteq> None" and "wellFormedResponse e"
  shows "reverbWorkerOnMessage e s = Inr (s\<lparr>reverbConvolver := Some (Some (impulseOfResponse e))\<rparr>)"
proof -
  obtain ctx old where s: "audioContext s = Some ctx" "reverbConvolver s = Some old"
    using assms(1,2) by auto
  have wf: "1 \<le> length' e" "int (length (channels e ! 0)) = length' e"
    "int (length (channels e ! 1)) = length' e"
    using assms(3) by (simp_all add: wellFormedResponse_def)
  show ?thesis
    unfolding impulseOfResponse_def
    by (rule response_applied [OF s wf(1) wellFormed_channels [OF assms(3)] wf(2,3)])
qed

lemma deliver_last_wins:
  assumes "audioContext s \<noteq> None" and "reverbConvolver s \<noteq> None"
    and "\<forall>e\<in>set es. wellFormedResponse e" and "es \<noteq> []"
  shows "deliverResponses es s = s\<lparr>reverbConvolver := Some (Some (impulseOfResponse (last es)))\<rparr>"
  using assms
proof (induction es arbitrary: s)
  case Nil
  then show ?case by simp
next
  case (Cons e es)
  let ?s' = "s\<lparr>reverbConvolver := Some (Some (impulseOfResponse e))\<rparr>"
  have one: "reverbWorkerOnMessage e s = Inr ?s'"
    using Cons.prems by (intro response_applied_wf) simp_all
  show ?case
  proof (cases "es = []")
    case True
    then show ?thesis using one by simp
  next
    case False
    have "deliverResponses es ?s'
        = ?s'\<lparr>reverbConvolver := Some (Some (impulseOfResponse (last es)))\<rparr>"
      using Cons.prems False by (intro Cons.IH) simp_all
    then show ?thesis using one False by simp
  qed
qed

text \<open>
  Claim C9.  When a response of the worker arrives (two channels of the announced length,
  at least one sample frame) and the audio context and the convolver exist, the handler
  builds the impulse buffer from the received channel data and assigns it to the
  convolver.  The result is the same whatever id the response carries and whatever the
  request counter holds, so after any sequence of such responses the convolver holds the
  impulse of the one that arrived last, a stale one included.
\<close>

theorem reverb_response_applied_unconditionally:
  assumes "audioContext s \<noteq> None" and "reverbConvolver s \<noteq> None" and "wellFormedResponse e"
  shows "reverbWorkerOnMessage e s = Inr (s\<lparr>reverbConvolver := Some (Some (impulseOfResponse e))\<rparr>)
       \<and> reverbWorkerOnMessage (e\<lparr>id' := i\<rparr>) (s\<lparr>reverbRequestId := r\<rparr>)
           = Inr (s\<lparr>reverbRequestId := r,
                    reverbConvolver := Some (Some (impulseOfResponse e))\<rparr>)
       \<and> (\<forall>es. (\<forall>x\<in>set es. wellFormedResponse x) \<longrightarrow>
             deliverResponses (es @ [e]) s
               = s\<lparr>reverbConvolver := Some (Some (impulseOfResponse e))\<rparr>)"
proof -
  have a: "reverbWorkerOnMessage e s = Inr (s\<lparr>reverbConvolver := Some (Some (impulseOfResponse e))\<rparr>)"
    using assms by (rule response_applied_wf)
  have wf: "wellFormedResponse (e\<lparr>id' := i\<rparr>)"
    using assms(3) by (simp add: wellFormedResponse_def)
  have "reverbWorkerOnMessage (e\<lparr>id' := i\<rparr>) (s\<lparr>reverbRequestId := r\<rparr>)
      = Inr (s\<lparr>reverbRequestId := r\<rparr>\<lparr>reverbConvolver := Some (Some (impulseOfResponse (e\<lparr>id' := i\<rparr>)))\<rparr>)"
    using assms(1,2) wf by (intro response_applied_wf) simp_all
  then have b: "reverbWorkerOnMessage (e\<lparr>id' := i\<rparr>) (s\<lparr>reverbRequestId := r\<rparr>)
           = Inr (s\<lparr>reverbRequestId := r,
                    reverbConvolver := Some (Some (impulseOfResponse e))\<rparr>)"
    by (simp add: impulseOfResponse_def)
  have c: "deliverResponses (es @ [e]) s
               = s\<lparr>reverbConvolver := Some (Some (impulseOfResponse e))\<rparr>"
    if "\<forall>x\<in>set es. wellFormedResponse x" for es
    using deliver_last_wins [OF assms(1,2), of "es @ [e]"] that assms(3) by simp
  show ?thesis using a b c by blast
qed


theorem reverb_response_applied_unconditionally_witness:
  "reverbWorkerOnMessage staleResponse audioReady
     = Inr (audioReady\<lparr>reverbConvolver := Some (Some (impulseOfResponse staleResponse))\<rparr>)
   \<and> deliverResponses ([newerResponse] @ [staleResponse]) audioReady
     = audioReady\<lparr>reverbConvolver := Some (Some (impulseOfResponse staleResponse))\<rparr>
   \<and> id' staleResponse < reverbRequestId audioReady"
proof -
  have h: "audioContext audioReady \<noteq> None" "reverbConvolver audioReady \<noteq> None"
    by (simp_all add: audioReady_def)
  have wf: "wellFormedResponse staleResponse" "\<forall>x\<in>set [newerResponse]. wellFormedResponse x"
    by (simp_all add: wellFormedResponse_def staleResponse_def newerResponse_def)
  have older: "id' staleResponse < reverbRequestId audioReady"
    by (simp add: staleResponse_def audioReady_def)
  note inst = reverb_response_applied_unconditionally [OF h wf(1)]
  show ?thesis
    using inst [THEN conjunct1]
      inst [THEN conjunct2, THEN conjunct2, THEN spec, of "[newerResponse]", THEN mp, OF wf(2)]
      older
    by (intro conjI)
qed

subsection \<open>The length of the impulse\<close>

lemma pow2_powr: "pow2 e = 2 powr (of_int e)"
  unfolding pow2_def by (subst powr_int) simp_all

lemma pow2_pos: "0 < pow2 e"
  by (simp add: pow2_powr)

lemma pow2_diff_52: "pow2 (e - 52) = pow2 e / 2 ^ 52"
proof -
  have "(2 :: real) powr (of_int e - 52) = 2 powr (of_int e) / 2 powr 52"
    by (rule powr_diff)
  moreover have "(2 :: real) powr 52 = 2 ^ 52"
    using powr_realpow [of "2 :: real" 52] by simp
  ultimately show ?thesis by (simp add: pow2_powr)
qed

lemma exponentOf_eq:
  assumes "pow2 e \<le> \<bar>x\<bar>" and "\<bar>x\<bar> < pow2 (e + 1)"
  shows "exponentOf x = e"
proof -
  have pos: "0 < \<bar>x\<bar>" using assms(1) pow2_pos [of e] by linarith
  have "of_int e \<le> log 2 \<bar>x\<bar>"
    using assms(1) pos by (simp add: le_log_iff pow2_powr)
  moreover have "log 2 \<bar>x\<bar> < of_int e + 1"
    using assms(2) pos by (simp add: log_less_iff pow2_powr)
  ultimately show ?thesis unfolding exponentOf_def by (intro floor_unique) simp_all
qed

lemma exponentOf_le:
  assumes "x \<noteq> 0"
  shows "pow2 (exponentOf x) \<le> \<bar>x\<bar>"
proof -
  have "of_int (exponentOf x) \<le> log 2 \<bar>x\<bar>" by (simp add: exponentOf_def)
  then show ?thesis using assms by (simp add: le_log_iff pow2_powr)
qed

lemma binary64_eval:
  assumes "pow2 e \<le> \<bar>x\<bar>" and "\<bar>x\<bar> < pow2 (e + 1)"
  shows "binary64 x = of_int (roundTiesToEven (x / pow2 (e - 52))) * pow2 (e - 52)"
proof -
  have "x \<noteq> 0" using assms(1) pow2_pos [of e] by auto
  then show ?thesis by (simp add: binary64_def Let_def exponentOf_eq [OF assms])
qed

lemma roundTiesToEven_nonneg: "0 \<le> r \<Longrightarrow> 0 \<le> roundTiesToEven r"
  by (auto simp add: roundTiesToEven_def Let_def)

lemma roundTiesToEven_error: "\<bar>of_int (roundTiesToEven r) - r\<bar> \<le> 1 / 2"
proof -
  define f where "f = \<lfloor>r\<rfloor>"
  have b: "of_int f \<le> r" "r < of_int f + 1"
    unfolding f_def using floor_correct [of r] by simp_all
  consider "r - of_int f < 1 / 2" | "1 / 2 < r - of_int f" | "r - of_int f = 1 / 2"
    by linarith
  then show ?thesis
  proof cases
    case 1
    then have "roundTiesToEven r = f" by (simp add: roundTiesToEven_def f_def Let_def)
    then show ?thesis using b 1 by (simp add: abs_le_iff)
  next
    case 2
    then have "roundTiesToEven r = f + 1" by (simp add: roundTiesToEven_def f_def Let_def)
    then show ?thesis using b 2 by (simp add: abs_le_iff)
  next
    case 3
    then have "roundTiesToEven r = f \<or> roundTiesToEven r = f + 1"
      by (simp add: roundTiesToEven_def f_def Let_def)
    then show ?thesis using b 3 by (auto simp add: abs_le_iff)
  qed
qed

lemma binary64_nonneg: "0 \<le> x \<Longrightarrow> 0 \<le> binary64 x"
  using pow2_pos by (simp add: binary64_def Let_def roundTiesToEven_nonneg less_imp_le)

lemma binary64_error: "\<bar>binary64 x - x\<bar> \<le> \<bar>x\<bar> / 2 ^ 53"
proof (cases "x = 0")
  case True
  then show ?thesis by (simp add: binary64_def)
next
  case False
  define u where "u = pow2 (exponentOf x - 52)"
  have u_pos: "0 < u" by (simp add: u_def pow2_pos)
  have u_le: "u \<le> \<bar>x\<bar> / 2 ^ 52"
    unfolding u_def pow2_diff_52 using exponentOf_le [OF False]
    by (simp add: divide_right_mono)
  have "binary64 x - x = (of_int (roundTiesToEven (x / u)) - x / u) * u"
    using False u_pos by (simp add: binary64_def Let_def u_def [symmetric] field_simps)
  then have "\<bar>binary64 x - x\<bar> = \<bar>of_int (roundTiesToEven (x / u)) - x / u\<bar> * u"
    using u_pos by (simp add: abs_mult)
  also have "\<dots> \<le> 1 / 2 * u"
    using roundTiesToEven_error [of "x / u"] u_pos by (intro mult_right_mono) simp_all
  also have "\<dots> \<le> 1 / 2 * (\<bar>x\<bar> / 2 ^ 52)" using u_le by simp
  also have "\<dots> = \<bar>x\<bar> / 2 ^ 53" by simp
  finally show ?thesis .
qed

text \<open>The binary64 value of the literal 0.7 and the arithmetic of the default settings.\<close>

lemma binary64_0_7: "binary64 0.7 = 6305039478318694 / 9007199254740992"
proof -
  have "binary64 0.7 = of_int (roundTiesToEven (0.7 / pow2 (- 1 - 52))) * pow2 (- 1 - 52)"
    by (rule binary64_eval) (simp_all add: pow2_def)
  also have "roundTiesToEven (0.7 / pow2 (- 1 - 52)) = 6305039478318694"
    by (simp add: pow2_def roundTiesToEven_def Let_def)
  finally show ?thesis by (simp add: pow2_def)
qed

lemma binary64_room_duration:
  "binary64 (6305039478318694 / 9007199254740992 * 2) = 6305039478318694 / 4503599627370496"
proof -
  let ?x = "6305039478318694 / 9007199254740992 * 2 :: real"
  have "binary64 ?x = of_int (roundTiesToEven (?x / pow2 (0 - 52))) * pow2 (0 - 52)"
    by (rule binary64_eval) (simp_all add: pow2_def)
  also have "roundTiesToEven (?x / pow2 (0 - 52)) = 6305039478318694"
    by (simp add: pow2_def roundTiesToEven_def Let_def)
  finally show ?thesis by (simp add: pow2_def)
qed

lemma binary64_room_samples:
  "binary64 (44100 * (6305039478318694 / 4503599627370496))
     = 8485480987361279 / 137438953472"
proof -
  let ?x = "44100 * (6305039478318694 / 4503599627370496) :: real"
  have "binary64 ?x = of_int (roundTiesToEven (?x / pow2 (15 - 52))) * pow2 (15 - 52)"
    by (rule binary64_eval) (simp_all add: pow2_def)
  also have "roundTiesToEven (?x / pow2 (15 - 52)) = 8485480987361279"
    by (simp add: pow2_def roundTiesToEven_def Let_def)
  finally show ?thesis by (simp add: pow2_def)
qed

lemma impulseLength_default: "impulseLength (binary64 0.7) 2 44100 = 61739"
proof -
  have "min (6305039478318694 / 4503599627370496) (6 :: real)
      = 6305039478318694 / 4503599627370496" by simp
  then show ?thesis
    unfolding impulseLength_def binary64_0_7 binary64_room_duration
    by (simp only: binary64_room_samples) simp
qed

text \<open>The loops keep the length of the channel they fill.\<close>

lemma forSamples_length:
  assumes "\<And>i st. length (fst (body i st)) = length (fst st)"
  shows "length (fst (forSamples body i n st)) = length (fst st)"
  using assms
proof (induction body i n st rule: forSamples.induct)
  case (1 body i n st)
  show ?case
  proof (cases "i < n")
    case True
    have "length (fst (forSamples body (Suc i) n (body i st))) = length (fst (body i st))"
      using True "1.prems" by (intro "1.IH") simp_all
    then show ?thesis using True "1.prems" by (subst forSamples.simps) simp
  next
    case False
    then show ?thesis by (subst forSamples.simps) simp
  qed
qed

lemma forSamples_empty: "forSamples body 0 0 st = st"
  by (subst forSamples.simps) simp

lemma workerSample_length:
  "length (fst (workerSample rnd p rate decay n off i st)) = length (fst st)"
  by (cases st) (simp add: workerSample_def Let_def)

lemma fallbackSample_length:
  "length (fst (fallbackSample rnd p rate decay len off i st)) = length (fst st)"
  by (cases st) (simp add: fallbackSample_def Let_def)

lemma worker_channel_length:
  "length (fst (forSamples (workerSample rnd p rate decay n off) 0 n (replicate n 0, k))) = n"
  using forSamples_length [of "workerSample rnd p rate decay n off" 0 n "(replicate n 0, k)"]
  by (simp add: workerSample_length)

lemma fallback_channel_length:
  "length (fst (forSamples (fallbackSample rnd p rate decay len off) 0 n (replicate n 0, k))) = n"
  using forSamples_length [of "fallbackSample rnd p rate decay len off" 0 n "(replicate n 0, k)"]
  by (simp add: fallbackSample_length)

text \<open>The two preset tables against the multipliers of the specification.\<close>

lemma nominalMultiplier_range: "0 \<le> nominalMultiplier type" "nominalMultiplier type \<le> 2"
  by (simp_all add: nominalMultiplier_def)

lemma presetFor_nominal:
  assumes "type \<notin> set objectPrototypeKeys"
  shows "\<exists>p. presetFor type = Preset p \<and> durationMult p = binary64 (nominalMultiplier type)"
  using assms by (simp add: presetFor_def PRESETS_def nominalMultiplier_def)

lemma fallbackPresetFor_nominal:
  assumes "type \<notin> set objectPrototypeKeys"
  shows "\<exists>q. fallbackPresetFor decay type = FallbackPreset q
       \<and> fbDuration q = binary64 (binary64 (nominalMultiplier type) * decay)"
  using assms
  by (simp add: fallbackPresetFor_def fallbackPresets_def nominalMultiplier_def mult.commute)

lemma presetFor_inherited:
  assumes "type \<in> set objectPrototypeKeys"
  shows "presetFor type = InheritedValue" and "fallbackPresetFor decay type = FallbackInheritedValue"
  using assms
  by (auto simp add: presetFor_def PRESETS_def fallbackPresetFor_def fallbackPresets_def
      objectPrototypeKeys_def)

lemma generateImpulse_length:
  assumes "presetFor type = Preset p" and "0 \<le> impulseLength (durationMult p) decay rate"
  shows "\<exists>r. generateImpulse rnd rate type decay = Inr (Impulse r) \<and> length (channels r) = 2
       \<and> (\<forall>c\<in>set (channels r). int (length c) = impulseLength (durationMult p) decay rate)
       \<and> length' r = impulseLength (durationMult p) decay rate
       \<and> sampleRate r = rate"
proof -
  define len where "len = impulseLength (durationMult p) decay rate"
  have len: "\<lfloor>binary64 (rate * min (binary64 (durationMult p * decay)) 6)\<rfloor> = len"
    by (simp add: len_def impulseLength_def)
  have nonneg: "0 \<le> len" using assms(2) by (simp add: len_def)
  show ?thesis
    unfolding len_def [symmetric] generateImpulse_def assms(1) presetValue.case Let_def len
    using nonneg by (simp add: worker_channel_length)
qed

lemma generateImpulse_negative:
  assumes "presetFor type = Preset p" and "impulseLength (durationMult p) decay rate < 0"
  shows "generateImpulse rnd rate type decay = Inl RangeError"
  using assms(2)
  by (simp add: generateImpulse_def assms(1) Let_def impulseLength_def)

lemma createReverbImpulseFallback_length:
  assumes "fallbackPresetFor decay type = FallbackPreset q"
    and "fbDuration q = binary64 (mult * decay)"
    and "1 \<le> impulseLength mult decay rate"
  shows "\<exists>b. createReverbImpulseFallback rnd rate type decay = Inr b
       \<and> numberOfChannels b = 2 \<and> length (channelData b) = 2
       \<and> (\<forall>c\<in>set (channelData b). int (length c) = impulseLength mult decay rate)
       \<and> bufferLength b = impulseLength mult decay rate
       \<and> bufferSampleRate b = rate"
proof -
  define len where "len = impulseLength mult decay rate"
  have len: "\<lfloor>binary64 (rate * min (fbDuration q) 6)\<rfloor> = len"
    by (simp add: len_def impulseLength_def assms(2))
  have pos: "1 \<le> len" using assms(3) by (simp add: len_def)
  have two: "replicate 2 (replicate (nat len) (0 :: real)) = [replicate (nat len) 0, replicate (nat len) 0]"
    by (simp add: numeral_2_eq_2)
  show ?thesis
    unfolding len_def [symmetric] createReverbImpulseFallback_def assms(1)
      fallbackPresetValue.case Let_def len createBuffer_def two
    using pos by (simp add: fallback_channel_length)
qed

lemma createReverbImpulseFallback_empty:
  assumes "fallbackPresetFor decay type = FallbackPreset q"
    and "fbDuration q = binary64 (mult * decay)"
    and "impulseLength mult decay rate < 1"
  shows "createReverbImpulseFallback rnd rate type decay = Inl NotSupportedError"
proof -
  define len where "len = impulseLength mult decay rate"
  have len: "\<lfloor>binary64 (rate * min (fbDuration q) 6)\<rfloor> = len"
    by (simp add: len_def impulseLength_def assms(2))
  have small: "len < 1" using assms(3) by (simp add: len_def)
  show ?thesis
    unfolding createReverbImpulseFallback_def assms(1) fallbackPresetValue.case Let_def len
      createBuffer_def
    using small by simp
qed

lemma impulseLength_nonneg:
  assumes "0 \<le> rate" and "0 \<le> decay" and "0 \<le> mult"
  shows "0 \<le> impulseLength mult decay rate"
proof -
  have "0 \<le> binary64 (mult * decay)" using assms by (intro binary64_nonneg) simp
  then have "0 \<le> rate * min (binary64 (mult * decay)) 6" using assms(1) by simp
  then have "0 \<le> binary64 (rate * min (binary64 (mult * decay)) 6)" by (rule binary64_nonneg)
  then show ?thesis by (simp add: impulseLength_def)
qed

text \<open>
  The rounded sample count against the exact one: the three roundings change the product
  by less than one, so the counts differ by at most one.
\<close>

lemma floor_near:
  fixes x y :: real
  assumes "\<bar>x - y\<bar> < 1"
  shows "\<bar>\<lfloor>x\<rfloor> - \<lfloor>y\<rfloor>\<bar> \<le> 1"
proof -
  have fx: "of_int \<lfloor>x\<rfloor> \<le> x" "x < of_int \<lfloor>x\<rfloor> + 1" using floor_correct [of x] by simp_all
  have fy: "of_int \<lfloor>y\<rfloor> \<le> y" "y < of_int \<lfloor>y\<rfloor> + 1" using floor_correct [of y] by simp_all
  have "real_of_int \<lfloor>x\<rfloor> - real_of_int \<lfloor>y\<rfloor> < 2" using fx fy assms by linarith
  then have "real_of_int (\<lfloor>x\<rfloor> - \<lfloor>y\<rfloor>) < real_of_int 2" by simp
  then have a: "\<lfloor>x\<rfloor> - \<lfloor>y\<rfloor> < 2" by (simp only: of_int_less_iff)
  have "real_of_int \<lfloor>y\<rfloor> - real_of_int \<lfloor>x\<rfloor> < 2" using fx fy assms by linarith
  then have "real_of_int (\<lfloor>y\<rfloor> - \<lfloor>x\<rfloor>) < real_of_int 2" by simp
  then have b: "\<lfloor>y\<rfloor> - \<lfloor>x\<rfloor> < 2" by (simp only: of_int_less_iff)
  show ?thesis using a b by simp
qed

lemma rounded_duration_near:
  assumes "0 \<le> decay" and "0 \<le> m0" 
  shows "\<bar>min (binary64 (binary64 m0 * decay)) 6 - min (m0 * decay) 6\<bar> \<le> 36 / 2 ^ 53"
    and "0 \<le> min (binary64 (binary64 m0 * decay)) 6"
    and "min (binary64 (binary64 m0 * decay)) 6 \<le> 6"
proof -
  define eps :: real where "eps = 1 / 2 ^ 53"
  define b where "b = m0 * decay"
  define a where "a = binary64 m0 * decay"
  define d where "d = binary64 a"
  have eps: "0 < eps" "eps \<le> 1 / 6" by (simp_all add: eps_def)
  have b0: "0 \<le> b" using assms by (simp add: b_def)
  have m: "\<bar>binary64 m0 - m0\<bar> \<le> m0 * eps"
    using binary64_error [of m0] assms(2) by (simp add: eps_def)
  have "a - b = (binary64 m0 - m0) * decay" by (simp add: a_def b_def algebra_simps)
  then have "\<bar>a - b\<bar> = \<bar>binary64 m0 - m0\<bar> * decay" using assms(1) by (simp add: abs_mult)
  also have "\<dots> \<le> m0 * eps * decay" using m assms(1) by (rule mult_right_mono)
  finally have ab: "\<bar>a - b\<bar> \<le> b * eps" by (simp add: b_def mult_ac)
  have "b * eps \<le> b * 1" using eps b0 by (intro mult_left_mono) simp_all
  then have a_le: "\<bar>a\<bar> \<le> 2 * b" using ab b0 by simp
  have "\<bar>d - a\<bar> \<le> \<bar>a\<bar> * eps" using binary64_error [of a] by (simp add: d_def eps_def)
  also have "\<dots> \<le> 2 * b * eps" using a_le eps(1) by (intro mult_right_mono) simp_all
  finally have da: "\<bar>d - a\<bar> \<le> 2 * b * eps" .
  have db: "\<bar>d - b\<bar> \<le> 3 * b * eps" using da ab by simp
  have d0: "0 \<le> d"
    unfolding d_def a_def using assms by (intro binary64_nonneg mult_nonneg_nonneg) simp_all
  show "0 \<le> min (binary64 (binary64 m0 * decay)) 6" using d0 by (simp add: d_def a_def)
  show "min (binary64 (binary64 m0 * decay)) 6 \<le> 6" by simp
  have "\<bar>min d 6 - min b 6\<bar> \<le> 36 * eps"
  proof (cases "b \<le> 12")
    case True
    have "3 * b * eps \<le> 3 * 12 * eps" using True eps(1) by simp
    then have "\<bar>d - b\<bar> \<le> 36 * eps" using db by simp
    then show ?thesis by (simp add: min_def abs_le_iff split: if_splits)
  next
    case False
    have "3 * b * eps \<le> 3 * b * (1 / 6)" using eps b0 by (intro mult_left_mono) simp_all
    then have "b / 2 \<le> d" using db by (simp add: abs_le_iff)
    then have "6 \<le> d" using False by simp
    then show ?thesis using False eps(1) by (simp add: min_def)
  qed
  then show "\<bar>min (binary64 (binary64 m0 * decay)) 6 - min (m0 * decay) 6\<bar> \<le> 36 / 2 ^ 53"
    by (simp add: d_def a_def b_def eps_def)
qed

lemma impulseLength_near_exact:
  assumes "0 \<le> rate" and "rate \<le> 10 ^ 12" and "0 \<le> decay" and "0 \<le> m0"
  shows "\<bar>impulseLength (binary64 m0) decay rate - \<lfloor>min (m0 * decay) 6 * rate\<rfloor>\<bar> \<le> 1"
proof -
  define eps :: real where "eps = 1 / 2 ^ 53"
  define dur where "dur = min (binary64 (binary64 m0 * decay)) 6"
  define y where "y = rate * dur"
  define ex where "ex = min (m0 * decay) 6 * rate"
  have eps: "0 < eps" by (simp add: eps_def)
  have dur: "\<bar>dur - min (m0 * decay) 6\<bar> \<le> 36 * eps" "0 \<le> dur" "dur \<le> 6"
    using rounded_duration_near [OF assms(3,4)] by (simp_all add: dur_def eps_def)
  have "y - ex = rate * (dur - min (m0 * decay) 6)" by (simp add: y_def ex_def algebra_simps)
  then have "\<bar>y - ex\<bar> = rate * \<bar>dur - min (m0 * decay) 6\<bar>"
    using assms(1) by (simp add: abs_mult)
  also have "\<dots> \<le> rate * (36 * eps)" using dur(1) assms(1) by (rule mult_left_mono)
  finally have yex: "\<bar>y - ex\<bar> \<le> 36 * rate * eps" by (simp add: mult_ac)
  have "rate * dur \<le> rate * 6" using dur(3) assms(1) by (rule mult_left_mono)
  then have y_le: "\<bar>y\<bar> \<le> 6 * rate" using dur(2) assms(1) by (simp add: y_def)
  have "\<bar>binary64 y - y\<bar> \<le> \<bar>y\<bar> * eps" using binary64_error [of y] by (simp add: eps_def)
  also have "\<dots> \<le> 6 * rate * eps" using y_le eps by (intro mult_right_mono) simp_all
  finally have cy: "\<bar>binary64 y - y\<bar> \<le> 6 * rate * eps" .
  have "\<bar>binary64 y - ex\<bar> \<le> 42 * rate * eps" using cy yex by simp
  also have "\<dots> \<le> 42 * 10 ^ 12 * eps" using assms(2) eps by simp
  also have "\<dots> < 1" by (simp add: eps_def)
  finally have "\<bar>binary64 y - ex\<bar> < 1" .
  then have "\<bar>\<lfloor>binary64 y\<rfloor> - \<lfloor>ex\<rfloor>\<bar> \<le> 1" by (rule floor_near)
  then show ?thesis by (simp add: impulseLength_def y_def dur_def ex_def)
qed

text \<open>
  The default settings, 44.1 kHz, room and a decay of 2, with the exact value of the
  specification's formula beside the rounded one; a negative decay; a decay of 0.
\<close>

lemma exact_length_default: "\<lfloor>min (0.7 * 2) 6 * (44100 :: real)\<rfloor> = 61740"
  by simp

lemma binary64_negative_duration:
  "binary64 (6305039478318694 / 9007199254740992 * (- 1))
     = - (6305039478318694 / 9007199254740992)"
proof -
  let ?x = "6305039478318694 / 9007199254740992 * (- 1) :: real"
  have "binary64 ?x = of_int (roundTiesToEven (?x / pow2 (- 1 - 52))) * pow2 (- 1 - 52)"
    by (rule binary64_eval) (simp_all add: pow2_def)
  also have "roundTiesToEven (?x / pow2 (- 1 - 52)) = - 6305039478318694"
    by (simp add: pow2_def roundTiesToEven_def Let_def)
  finally show ?thesis by (simp add: pow2_def)
qed

lemma binary64_negative_samples:
  "binary64 (44100 * (- (6305039478318694 / 9007199254740992)))
     = - (8485480987361279 / 274877906944)"
proof -
  let ?x = "44100 * (- (6305039478318694 / 9007199254740992)) :: real"
  have "binary64 ?x = of_int (roundTiesToEven (?x / pow2 (14 - 52))) * pow2 (14 - 52)"
    by (rule binary64_eval) (simp_all add: pow2_def)
  also have "roundTiesToEven (?x / pow2 (14 - 52)) = - 8485480987361279"
    by (simp add: pow2_def roundTiesToEven_def Let_def)
  finally show ?thesis by (simp add: pow2_def)
qed

lemma impulseLength_negative_decay: "impulseLength (binary64 0.7) (- 1) 44100 = - 30870"
proof -
  have "min (- (6305039478318694 / 9007199254740992)) (6 :: real)
      = - (6305039478318694 / 9007199254740992)" by simp
  then show ?thesis
    unfolding impulseLength_def binary64_0_7 binary64_negative_duration
    by (simp only: binary64_negative_samples) simp
qed

lemma impulseLength_zero_decay: "impulseLength mult 0 rate = 0"
  by (simp add: impulseLength_def binary64_def)

lemma room_preset:
  "\<exists>p. presetFor ''room'' = Preset p \<and> durationMult p = binary64 0.7"
  by (simp add: presetFor_def PRESETS_def)

lemma room_fallback_preset:
  "\<exists>q. fallbackPresetFor decay ''room'' = FallbackPreset q
     \<and> fbDuration q = binary64 (binary64 0.7 * decay)"
  by (simp add: fallbackPresetFor_def fallbackPresets_def mult.commute)

text \<open>
  Claim C10, as the code has it.  Against the specification's sentence the code differs in
  four ways.  The products are binary64 products: with the default settings (44.1 kHz,
  room, decay 2) the channels have 61739 samples, while floor (min (0.7 * 2) 6 * 44100) is
  61740.  A type that names a property inherited from \<^verbatim>\<open>Object.prototype\<close>, such as
  \<^verbatim>\<open>constructor\<close>, does not use the room preset: the worker returns two empty channels
  with \<^verbatim>\<open>NaN\<close> as the length, and the fallback throws.  For a negative decay the worker
  throws a \<open>RangeError\<close>.  For a length of 0 (decay 0) the worker returns two empty
  channels and the fallback throws a \<open>NotSupportedError\<close>, so that the two do not
  produce the same impulse.
\<close>

theorem impulse_length_counterexample:
  "(\<exists>r. generateImpulse (\<lambda>k. 1 / 2) 44100 ''room'' 2 = Inr (Impulse r)
        \<and> length (channels r) = 2 \<and> (\<forall>c\<in>set (channels r). length c = 61739)
        \<and> length' r = 61739)
   \<and> \<lfloor>min (0.7 * 2) 6 * (44100 :: real)\<rfloor> = 61740
   \<and> generateImpulse (\<lambda>k. 1 / 2) 44100 ''constructor'' 2 = Inr (ImpulseNaN [[], []] 44100)
   \<and> createReverbImpulseFallback (\<lambda>k. 1 / 2) 44100 ''constructor'' 2 = Inl NotSupportedError
   \<and> generateImpulse (\<lambda>k. 1 / 2) 44100 ''room'' (- 1) = Inl RangeError
   \<and> (\<exists>r. generateImpulse (\<lambda>k. 1 / 2) 44100 ''room'' 0 = Inr (Impulse r)
        \<and> channels r = [[], []] \<and> length' r = 0)
   \<and> createReverbImpulseFallback (\<lambda>k. 1 / 2) 44100 ''room'' 0 = Inl NotSupportedError"
proof -
  obtain p where p: "presetFor ''room'' = Preset p" "durationMult p = binary64 0.7"
    using room_preset by blast
  obtain q where q: "fallbackPresetFor 0 ''room'' = FallbackPreset q"
      "fbDuration q = binary64 (binary64 0.7 * 0)"
    using room_fallback_preset [of 0] by blast
  have len: "impulseLength (durationMult p) 2 44100 = 61739"
    by (simp only: p(2) impulseLength_default)
  obtain r where r: "generateImpulse (\<lambda>k. 1 / 2) 44100 ''room'' 2 = Inr (Impulse r)"
      "length (channels r) = 2" "\<forall>c\<in>set (channels r). int (length c) = 61739"
      "length' r = 61739"
    using generateImpulse_length [OF p(1), of 2 44100 "\<lambda>k. 1 / 2"] unfolding len by auto
  have "\<forall>c\<in>set (channels r). length c = 61739" using r(3) by simp
  then have a: "\<exists>r. generateImpulse (\<lambda>k. 1 / 2) 44100 ''room'' 2 = Inr (Impulse r)
        \<and> length (channels r) = 2 \<and> (\<forall>c\<in>set (channels r). length c = 61739)
        \<and> length' r = 61739"
    using r(1,2,4) by blast
  have c: "generateImpulse (\<lambda>k. 1 / 2) 44100 ''constructor'' 2 = Inr (ImpulseNaN [[], []] 44100)"
    by (simp add: generateImpulse_def presetFor_inherited(1) objectPrototypeKeys_def)
  have d: "createReverbImpulseFallback (\<lambda>k. 1 / 2) 44100 ''constructor'' 2
      = Inl NotSupportedError"
    by (simp add: createReverbImpulseFallback_def presetFor_inherited(2)
        objectPrototypeKeys_def createBuffer_def)
  have "impulseLength (durationMult p) (- 1) 44100 < 0"
    by (simp add: p(2) impulseLength_negative_decay)
  then have e: "generateImpulse (\<lambda>k. 1 / 2) 44100 ''room'' (- 1) = Inl RangeError"
    by (rule generateImpulse_negative [OF p(1)])
  have f: "\<exists>r. generateImpulse (\<lambda>k. 1 / 2) 44100 ''room'' 0 = Inr (Impulse r)
        \<and> channels r = [[], []] \<and> length' r = 0"
    by (simp add: generateImpulse_def p(1) Let_def binary64_def forSamples_empty)
  have "impulseLength (binary64 0.7) 0 44100 < 1" by (simp add: impulseLength_zero_decay)
  then have g: "createReverbImpulseFallback (\<lambda>k. 1 / 2) 44100 ''room'' 0 = Inl NotSupportedError"
    by (rule createReverbImpulseFallback_empty [OF q])
  show ?thesis using a exact_length_default c d e f g by (intro conjI)
qed

text \<open>
  Claim C10, amended.  Take a sample rate and a decay that are not negative and a reverb
  type that is not the name of a property inherited from \<^verbatim>\<open>Object.prototype\<close>.  The
  preset used has the binary64 value of the listed multiplier: 0.7 for room, 1.2 for
  hall, 0.9 for plate, 1.5 for cathedral, and the room value for every other type.  The
  generated impulse has exactly two channels, and each has
  floor (sampleRate * min (multiplier * decay) 6) samples, both products rounded to
  binary64; this count is not negative, and for a sample rate of at most \<open>10^12\<close> it
  differs by at most one from the exact floor (min (multiplier * decay) 6 * sampleRate)
  of the real numbers.  The fallback on the main thread produces a buffer of two
  channels of the same length whenever that length is at least one sample frame; for the
  length 0 it throws a \<open>NotSupportedError\<close>.
\<close>

theorem impulse_length:
  assumes "0 \<le> rate" and "0 \<le> decay" and "type \<notin> set objectPrototypeKeys"
  shows "nominalMultiplier ''room'' = 0.7 \<and> nominalMultiplier ''hall'' = 1.2
       \<and> nominalMultiplier ''plate'' = 0.9 \<and> nominalMultiplier ''cathedral'' = 1.5
       \<and> (type \<notin> {''room'', ''hall'', ''plate'', ''cathedral''} \<longrightarrow>
            nominalMultiplier type = 0.7 \<and> presetFor type = presetFor ''room'')
       \<and> (\<exists>p. presetFor type = Preset p \<and> durationMult p = binary64 (nominalMultiplier type))
       \<and> 0 \<le> impulseLength (binary64 (nominalMultiplier type)) decay rate
       \<and> (\<exists>r. generateImpulse rnd rate type decay = Inr (Impulse r) \<and> length (channels r) = 2
            \<and> (\<forall>c\<in>set (channels r).
                  int (length c) = impulseLength (binary64 (nominalMultiplier type)) decay rate)
            \<and> length' r = impulseLength (binary64 (nominalMultiplier type)) decay rate)
       \<and> (1 \<le> impulseLength (binary64 (nominalMultiplier type)) decay rate \<longrightarrow>
            (\<exists>b. createReverbImpulseFallback rnd' rate type decay = Inr b
               \<and> numberOfChannels b = 2 \<and> length (channelData b) = 2
               \<and> (\<forall>c\<in>set (channelData b).
                     int (length c) = impulseLength (binary64 (nominalMultiplier type)) decay rate)
               \<and> bufferLength b = impulseLength (binary64 (nominalMultiplier type)) decay rate))
       \<and> (impulseLength (binary64 (nominalMultiplier type)) decay rate = 0 \<longrightarrow>
            createReverbImpulseFallback rnd' rate type decay = Inl NotSupportedError)
       \<and> (rate \<le> 10 ^ 12 \<longrightarrow>
            \<bar>impulseLength (binary64 (nominalMultiplier type)) decay rate
              - \<lfloor>min (nominalMultiplier type * decay) 6 * rate\<rfloor>\<bar> \<le> 1)"
proof -
  let ?L = "impulseLength (binary64 (nominalMultiplier type)) decay rate"
  have table: "nominalMultiplier ''room'' = 0.7" "nominalMultiplier ''hall'' = 1.2"
    "nominalMultiplier ''plate'' = 0.9" "nominalMultiplier ''cathedral'' = 1.5"
    by (simp_all add: nominalMultiplier_def)
  have other: "nominalMultiplier type = 0.7 \<and> presetFor type = presetFor ''room''"
    if "type \<notin> {''room'', ''hall'', ''plate'', ''cathedral''}"
    using that assms(3) by (simp add: nominalMultiplier_def presetFor_def PRESETS_def)
  obtain p where p: "presetFor type = Preset p"
      "durationMult p = binary64 (nominalMultiplier type)"
    using presetFor_nominal [OF assms(3)] by blast
  obtain q where q: "fallbackPresetFor decay type = FallbackPreset q"
      "fbDuration q = binary64 (binary64 (nominalMultiplier type) * decay)"
    using fallbackPresetFor_nominal [OF assms(3)] by blast
  have preset: "\<exists>p. presetFor type = Preset p \<and> durationMult p = binary64 (nominalMultiplier type)"
    using p by blast
  have nonneg: "0 \<le> ?L"
    using assms(1,2) nominalMultiplier_range(1) [of type]
    by (intro impulseLength_nonneg binary64_nonneg)
  have "0 \<le> impulseLength (durationMult p) decay rate" using nonneg by (simp only: p(2))
  then have worker: "\<exists>r. generateImpulse rnd rate type decay = Inr (Impulse r)
            \<and> length (channels r) = 2
            \<and> (\<forall>c\<in>set (channels r). int (length c) = ?L)
            \<and> length' r = ?L"
    using generateImpulse_length [OF p(1), of decay rate rnd] by (simp only: p(2)) blast
  have fallback: "\<exists>b. createReverbImpulseFallback rnd' rate type decay = Inr b
               \<and> numberOfChannels b = 2 \<and> length (channelData b) = 2
               \<and> (\<forall>c\<in>set (channelData b). int (length c) = ?L)
               \<and> bufferLength b = ?L"
    if "1 \<le> ?L"
    using createReverbImpulseFallback_length [OF q that, of rnd'] by blast
  have empty: "createReverbImpulseFallback rnd' rate type decay = Inl NotSupportedError"
    if "?L = 0"
    using createReverbImpulseFallback_empty [OF q, of rate rnd'] that by simp
  have near: "\<bar>?L - \<lfloor>min (nominalMultiplier type * decay) 6 * rate\<rfloor>\<bar> \<le> 1"
    if "rate \<le> 10 ^ 12"
    using assms(1) that assms(2) nominalMultiplier_range(1) by (rule impulseLength_near_exact)
  have other': "type \<notin> {''room'', ''hall'', ''plate'', ''cathedral''} \<longrightarrow>
            nominalMultiplier type = 0.7 \<and> presetFor type = presetFor ''room''"
    using other by blast
  have fallback': "1 \<le> ?L \<longrightarrow>
            (\<exists>b. createReverbImpulseFallback rnd' rate type decay = Inr b
               \<and> numberOfChannels b = 2 \<and> length (channelData b) = 2
               \<and> (\<forall>c\<in>set (channelData b). int (length c) = ?L)
               \<and> bufferLength b = ?L)"
    using fallback by blast
  have empty': "?L = 0 \<longrightarrow>
            createReverbImpulseFallback rnd' rate type decay = Inl NotSupportedError"
    using empty by blast
  have near': "rate \<le> 10 ^ 12 \<longrightarrow>
            \<bar>?L - \<lfloor>min (nominalMultiplier type * decay) 6 * rate\<rfloor>\<bar> \<le> 1"
    using near by blast
  show ?thesis
    using table other' preset nonneg worker fallback' empty' near' by (intro conjI)
qed

theorem impulse_length_witness:
  "(\<exists>r. generateImpulse (\<lambda>k. 1 / 2) 44100 ''room'' 2 = Inr (Impulse r)
        \<and> length (channels r) = 2 \<and> length' r = 61739)
   \<and> (\<exists>b. createReverbImpulseFallback (\<lambda>k. 1 / 2) 44100 ''room'' 2 = Inr b
        \<and> length (channelData b) = 2 \<and> bufferLength b = 61739)
   \<and> \<bar>61739 - \<lfloor>min (nominalMultiplier ''room'' * 2) 6 * (44100 :: real)\<rfloor>\<bar> \<le> 1"
proof -
  have mult: "nominalMultiplier ''room'' = 0.7" by (simp add: nominalMultiplier_def)
  have len: "impulseLength (binary64 (nominalMultiplier ''room'')) 2 44100 = 61739"
    by (simp only: mult impulseLength_default)
  have h: "(0 :: real) \<le> 44100" "(0 :: real) \<le> 2" "''room'' \<notin> set objectPrototypeKeys"
    by (simp_all add: objectPrototypeKeys_def)
  note inst = impulse_length [OF h, where rnd = "\<lambda>k. 1 / 2" and rnd' = "\<lambda>k. 1 / 2",
      unfolded len]
  have one: "(1 :: int) \<le> 61739" and small: "(44100 :: real) \<le> 10 ^ 12" by simp_all
  show ?thesis using inst one small by blast
qed

text \<open>
  The message the worker posts for such a request with at least one sample frame is a
  response of two channels of the announced length.
\<close>

lemma worker_response_wellFormed:
  assumes "requestType req \<notin> set objectPrototypeKeys"
    and "1 \<le> impulseLength (binary64 (nominalMultiplier (requestType req)))
                 (requestDecay req) (requestSampleRate req)"
  shows "\<exists>e. workerOnMessage rnd req = Inr (Response e) \<and> wellFormedResponse e
           \<and> id' e = requestId req"
proof -
  let ?L = "impulseLength (binary64 (nominalMultiplier (requestType req)))
                 (requestDecay req) (requestSampleRate req)"
  obtain p where p: "presetFor (requestType req) = Preset p"
      "durationMult p = binary64 (nominalMultiplier (requestType req))"
    using presetFor_nominal [OF assms(1)] by blast
  have "0 \<le> impulseLength (durationMult p) (requestDecay req) (requestSampleRate req)"
    using assms(2) by (simp only: p(2))
  then obtain r where r: "generateImpulse rnd (requestSampleRate req) (requestType req)
        (requestDecay req) = Inr (Impulse r)"
      "length (channels r) = 2" "\<forall>c\<in>set (channels r). int (length c) = ?L" "length' r = ?L"
    using generateImpulse_length [OF p(1), of "requestDecay req" "requestSampleRate req" rnd]
    by (simp only: p(2)) blast
  have "channels r ! 0 \<in> set (channels r)" "channels r ! 1 \<in> set (channels r)"
    using r(2) by simp_all
  then have lens: "int (length (channels r ! 0)) = ?L" "int (length (channels r ! 1)) = ?L"
    using r(3) by blast+
  show ?thesis
    using r(1,2,4) lens assms(2)
    by (simp add: workerOnMessage_def wellFormedResponse_def)
qed

end
